theory Spec2Isabelle
  imports Main
begin

section \<open>JavaScript values and string primitives used by the runner\<close>

text \<open>
  The runner (\<^verbatim>\<open>mod.ts\<close>: \<^verbatim>\<open>run\<close>, \<^verbatim>\<open>setWorkingDir\<close>, \<^verbatim>\<open>runTasks\<close>) and the executor
  (\<^verbatim>\<open>exec.ts\<close>: \<^verbatim>\<open>exec\<close>, \<^verbatim>\<open>_exec\<close>) are TypeScript on Deno. Strings are
  \<^typ>\<open>string\<close>; the single quote that the messages of the source put around names is
  the character \<open>sq\<close>.
\<close>

definition sq :: string where
  "sq = [CHR 0x27]"

definition nl :: string where
  "nl = [CHR 0x0A]"

definition dq :: string where
  "dq = [CHR 0x22]"

text \<open>
  \<^verbatim>\<open>s.replace('-', '_')\<close>: with a string pattern, \<^verbatim>\<open>String.prototype.replace\<close> replaces
  the first occurrence only.
\<close>

fun js_replace :: "char \<Rightarrow> char \<Rightarrow> string \<Rightarrow> string" where
  "js_replace a b [] = []"
| "js_replace a b (c # cs) = (if c = a then b # cs else c # js_replace a b cs)"

text \<open>Replacing every occurrence (what \<^verbatim>\<open>replaceAll\<close> or a global pattern would do).\<close>

definition replace_every :: "char \<Rightarrow> char \<Rightarrow> string \<Rightarrow> string" where
  "replace_every a b s = map (\<lambda>c. if c = a then b else c) s"

text \<open>\<^verbatim>\<open>s.split(' ')\<close>: the pieces between separators, empty pieces kept.\<close>

fun js_split :: "char \<Rightarrow> string \<Rightarrow> string list" where
  "js_split sep [] = [[]]"
| "js_split sep (c # cs) =
     (if c = sep then [] # js_split sep cs
      else (case js_split sep cs of [] \<Rightarrow> [[c]] | p # ps \<Rightarrow> (c # p) # ps))"

text \<open>\<^verbatim>\<open>xs.join(sep)\<close>.\<close>

fun js_join :: "string \<Rightarrow> string list \<Rightarrow> string" where
  "js_join sep [] = []"
| "js_join sep [x] = x"
| "js_join sep (x # y # ys) = x @ sep @ js_join sep (y # ys)"

text \<open>A number in a template literal: its decimal digits.\<close>

fun show_nat :: "nat \<Rightarrow> string" where
  "show_nat n =
     (if n < 10 then [''0123456789'' ! n]
      else show_nat (n div 10) @ [''0123456789'' ! (n mod 10)])"

declare show_nat.simps [simp del]

definition show_int :: "int \<Rightarrow> string" where
  "show_int i = (if i < 0 then CHR ''-'' # show_nat (nat (- i)) else show_nat (nat i))"

text \<open>
  A value that is thrown or that rejects a promise. \<open>ErrorObj name message\<close> is a plain
  \<^verbatim>\<open>Error\<close> instance (\<^verbatim>\<open>new Error(message)\<close>, a \<^verbatim>\<open>TypeError\<close> of the engine);
  \<open>StrVal\<close> is a string (the runner throws strings); \<open>OtherVal text json\<close> is any other
  value, one of Deno's own errors among them, given by what a template literal and what
  \<^verbatim>\<open>JSON.stringify\<close> make of it.
\<close>

datatype jsval = ErrorObj string string | StrVal string | OtherVal string string

text \<open>\<^verbatim>\<open>`${v}`\<close>: an error prints as \<^verbatim>\<open>name: message\<close>.\<close>

fun js_String :: "jsval \<Rightarrow> string" where
  "js_String (ErrorObj n m) = (if m = [] then n else if n = [] then m else n @ '': '' @ m)"
| "js_String (StrVal s) = s"
| "js_String (OtherVal s j) = s"

text \<open>
  \<^verbatim>\<open>JSON.stringify(v)\<close> for a caught value. It serialises the enumerable own properties
  of an object, and a plain \<^verbatim>\<open>Error\<close> has none (\<^verbatim>\<open>message\<close> and \<^verbatim>\<open>stack\<close> are not
  enumerable), so it serialises to \<^verbatim>\<open>{}\<close>. The quoting of a string is the parameter
  \<open>quote\<close>.
\<close>

fun JSON_stringify :: "(string \<Rightarrow> string) \<Rightarrow> jsval \<Rightarrow> string" where
  "JSON_stringify quote (ErrorObj n m) = ''{}''"
| "JSON_stringify quote (StrVal s) = quote s"
| "JSON_stringify quote (OtherVal s j) = j"

text \<open>
  What calling a task or a function command gives: it throws, or it returns
  \<^verbatim>\<open>undefined\<close>, \<^verbatim>\<open>null\<close>, some other value without a \<^verbatim>\<open>catch\<close> method, or a
  promise that is fulfilled or rejected once awaited.
\<close>

datatype settle = Fulfilled | Rejected jsval

datatype ret = Undefined | Null | NonPromise | Promise settle

datatype call_result = Throws jsval | Returns ret

text \<open>
  \<^verbatim>\<open>await f(...).catch((err) => { throw err })\<close> inside a \<^verbatim>\<open>try\<close>: the value the
  \<^verbatim>\<open>catch\<close> clause receives, or \<open>None\<close> when nothing is thrown. A thrown value and a
  rejection arrive unchanged; on a value without a \<^verbatim>\<open>catch\<close> method the member
  call itself raises a \<^verbatim>\<open>TypeError\<close> (the wording is V8's).
\<close>

fun await_catch :: "string \<Rightarrow> call_result \<Rightarrow> jsval option" where
  "await_catch callee (Throws e) = Some e"
| "await_catch callee (Returns Undefined) =
     Some (ErrorObj ''TypeError'' ''Cannot read properties of undefined (reading 'catch')'')"
| "await_catch callee (Returns Null) =
     Some (ErrorObj ''TypeError'' ''Cannot read properties of null (reading 'catch')'')"
| "await_catch callee (Returns NonPromise) =
     Some (ErrorObj ''TypeError'' (callee @ ''(...).catch is not a function''))"
| "await_catch callee (Returns (Promise Fulfilled)) = None"
| "await_catch callee (Returns (Promise (Rejected e))) = Some e"

section \<open>The process: working directory, directories, logger calls, console, children\<close>

text \<open>
  The logger is a collaborator of the runner: a call of \<^verbatim>\<open>log.error(msg, ...args)\<close> is
  recorded with the name given to \<^verbatim>\<open>getLogger\<close>, the level, the message and the
  arguments of the call, whatever level the logger is configured to print.
\<close>

datatype level = TRACE | DEBUG | INFO | WARN | ERROR | FATAL | OFF

text \<open>
  The \<^verbatim>\<open>cmd\<close> of the executor's options: a command string, an array of command strings,
  or a function (its source text, which is what a template literal prints, and what
  calling it does).
\<close>

datatype 'f cmd = CmdStr string | CmdList "string list" | CmdFun string 'f

record 'f exec_opts =
  cmd :: "'f cmd"
  dir :: "string option"
  env :: "(string \<times> string) list option"
  silent :: "bool option"
  logError :: "bool option"

datatype logarg =
  LStr string | LStrs "string list" | LFun string | LVal jsval | LOpts "unit exec_opts"

datatype log_event = LogEvent string level string "logarg list"

text \<open>\<^verbatim>\<open>Deno.RunOptions\<close>, as \<^verbatim>\<open>_exec\<close> fills it.\<close>

record run_options =
  ro_cmd :: "string list"
  ro_cwd :: "string option"
  ro_env :: "(string \<times> string) list option"
  ro_stdout :: "string option"
  ro_stderr :: "string option"

text \<open>
  The state of the process and of what it can observe: the working directory, the paths
  that name a directory (so that \<^verbatim>\<open>Deno.chdir\<close> succeeds on them), the level set on
  \<^verbatim>\<open>loggerFactory\<close>, the logger calls, the lines given to \<^verbatim>\<open>console.log\<close>, and the
  options of every child process started with \<^verbatim>\<open>Deno.run\<close>, in order.
\<close>

record world =
  cwd :: string
  dirs :: "string list"
  log_level :: string
  log_calls :: "log_event list"
  console :: "string list"
  spawned :: "run_options list"

definition log_call :: "string \<Rightarrow> level \<Rightarrow> string \<Rightarrow> logarg list \<Rightarrow> world \<Rightarrow> world" where
  "log_call name lvl m as w = w\<lparr>log_calls := log_calls w @ [LogEvent name lvl m as]\<rparr>"

definition console_log :: "string \<Rightarrow> world \<Rightarrow> world" where
  "console_log s w = w\<lparr>console := console w @ [s]\<rparr>"

text \<open>
  \<^verbatim>\<open>Deno.cwd()\<close> and \<^verbatim>\<open>Deno.chdir(p)\<close>. Both throw Deno's \<^verbatim>\<open>NotFound\<close> when the
  directory is not there; a failed \<^verbatim>\<open>chdir\<close> leaves the working directory alone. A
  relative path is taken from the working directory; a path is absolute when it starts
  with a slash or a backslash, or with a drive letter and a colon. Paths are compared as
  texts: \<open>dirs\<close> holds the paths as \<^verbatim>\<open>Deno.cwd()\<close> would give them, and a path with
  \<^verbatim>\<open>..\<close>, \<^verbatim>\<open>.\<close> or a slash at its end is not brought to that form first.
\<close>

definition NotFound :: jsval where
  "NotFound =
     OtherVal ''NotFound: No such file or directory (os error 2)''
       (''{'' @ dq @ ''name'' @ dq @ '':'' @ dq @ ''NotFound'' @ dq @ '',''
        @ dq @ ''code'' @ dq @ '':'' @ dq @ ''ENOENT'' @ dq @ ''}'')"

definition is_absolute :: "string \<Rightarrow> bool" where
  "is_absolute p =
     (case p of
        [] \<Rightarrow> False
      | c # cs \<Rightarrow>
          c = CHR ''/'' \<or> c = CHR 0x5C \<or> (case cs of [] \<Rightarrow> False | d # ds \<Rightarrow> d = CHR '':''))"

definition resolve_path :: "string \<Rightarrow> string \<Rightarrow> string" where
  "resolve_path base p = (if is_absolute p then p else base @ ''/'' @ p)"

definition Deno_cwd :: "world \<Rightarrow> jsval + string" where
  "Deno_cwd w = (if cwd w \<in> set (dirs w) then Inr (cwd w) else Inl NotFound)"

definition Deno_chdir :: "string \<Rightarrow> world \<Rightarrow> jsval + world" where
  "Deno_chdir p w =
     (if resolve_path (cwd w) p \<in> set (dirs w)
      then Inr (w\<lparr>cwd := resolve_path (cwd w) p\<rparr>)
      else Inl NotFound)"

section \<open>Tasks and their registries\<close>

text \<open>
  The parsed command line (\<^verbatim>\<open>parse(Deno.args)\<close>): the positional arguments under
  \<^verbatim>\<open>_\<close> and the flags. The parser turns a positional argument that reads as a number
  into a number (\<open>PNum\<close>, with its text) and leaves any other a string. JavaScript
  truthiness decides \<^verbatim>\<open>if (taskArgs['help'])\<close> and
  \<^verbatim>\<open>if (opts.dir)\<close>: an absent value, \<^verbatim>\<open>false\<close>, \<^verbatim>\<open>0\<close> and the empty string are
  falsy.
\<close>

datatype argval = ABool bool | AStr string | ANum int

datatype posarg = PStr string | PNum string

type_synonym flags = "string \<Rightarrow> argval option"

record parsed_args =
  positional :: "posarg list"
  flags :: flags

fun truthy :: "argval option \<Rightarrow> bool" where
  "truthy None = False"
| "truthy (Some (ABool b)) = b"
| "truthy (Some (AStr s)) = (s \<noteq> [])"
| "truthy (Some (ANum n)) = (n \<noteq> 0)"

fun str_truthy :: "string option \<Rightarrow> bool" where
  "str_truthy None = False"
| "str_truthy (Some s) = (s \<noteq> [])"

text \<open>
  \<^verbatim>\<open>TaskContext\<close>: the arguments and the logger (by its name). A task, called with its
  context, acts on the process and throws or returns; everything it does before the
  dispatcher's \<^verbatim>\<open>await\<close> finishes is in the state it leaves (a promise that never
  settles is not modelled: the dispatcher would wait for ever). A registry
  (\<^verbatim>\<open>NamedTasks\<close>) gives what \<^verbatim>\<open>tasks[name]\<close> evaluates to, for a property of the
  object or one it inherits: \<open>None\<close> for \<^verbatim>\<open>undefined\<close>, which is what \<^verbatim>\<open>!task\<close> tests, a
  function being truthy.
\<close>

record task_context =
  args :: flags
  log :: string

type_synonym fn = "world \<Rightarrow> world \<times> call_result"

type_synonym task = "task_context \<Rightarrow> fn"

type_synonym registry = "string \<Rightarrow> task option"

text \<open>
  The lookup of \<^verbatim>\<open>runTasks\<close> (lines 188 to 194): the user's task of that name, else the
  user's task \<^verbatim>\<open>task_<name>\<close>, else the builtin of that name.
\<close>

definition lookup_task :: "registry \<Rightarrow> registry \<Rightarrow> string \<Rightarrow> task option" where
  "lookup_task userTasks builtinsTasks taskName =
     (case userTasks taskName of
        Some t \<Rightarrow> Some t
      | None \<Rightarrow>
          (case userTasks (''task_'' @ taskName) of
             Some t \<Rightarrow> Some t
           | None \<Rightarrow> builtinsTasks taskName))"

text \<open>
  How \<^verbatim>\<open>runTasks\<close> ends: the loop ran to its end, it returned early at a name it could not
  find (the name after the replacement), or it threw. The first two are both a normal
  return to the caller.
\<close>

datatype batch_result = Completed | Missing string | Failed jsval

definition missing_msg :: "string \<Rightarrow> string" where
  "missing_msg taskName =
     ''could not find task function '' @ sq @ taskName @ sq
       @ ''. Run '_help' to show available tasks''"

definition running_msg :: "string \<Rightarrow> string" where
  "running_msg taskName = ''running task: '' @ sq @ taskName @ sq"

definition threw_msg :: "string \<Rightarrow> string" where
  "threw_msg taskName = ''Task '' @ sq @ taskName @ sq @ '' threw an error''"

text \<open>The string that is thrown: the source leaves its closing quote out.\<close>

definition task_failure :: "string \<Rightarrow> jsval" where
  "task_failure taskName = StrVal (''Task '' @ sq @ taskName @ '' threw an error'')"

fun runTasks :: "registry \<Rightarrow> registry \<Rightarrow> string list \<Rightarrow> flags \<Rightarrow> world
    \<Rightarrow> world \<times> batch_result" where
  "runTasks userTasks builtinsTasks [] taskArgs w = (w, Completed)"
| "runTasks userTasks builtinsTasks (n # rest) taskArgs w =
     (let taskName = js_replace CHR ''-'' CHR ''_'' n in
      case lookup_task userTasks builtinsTasks taskName of
        None \<Rightarrow> (log_call ''run'' ERROR (missing_msg taskName) [] w, Missing taskName)
      | Some task \<Rightarrow>
          (case task \<lparr>args = taskArgs, log = ''task.'' @ taskName\<rparr>
                  (log_call ''run'' DEBUG (running_msg taskName) [] w) of
             (w2, r) \<Rightarrow>
               (case await_catch ''task'' r of
                  Some err \<Rightarrow>
                    (log_call ''run'' ERROR (threw_msg taskName) [LVal err] w2,
                     Failed (task_failure taskName))
                | None \<Rightarrow> runTasks userTasks builtinsTasks rest taskArgs w2)))"

text \<open>
  \<^verbatim>\<open>runTasks\<close> as \<^verbatim>\<open>run\<close> calls it. The cast \<^verbatim>\<open>taskArgs['_'] as string[]\<close> checks
  nothing, so the array may hold numbers. The loop handles the strings before the first
  number as above; at a number \<^verbatim>\<open>tasksToRun[i].replace\<close> is not a function, and the
  \<^verbatim>\<open>TypeError\<close>, raised before the \<^verbatim>\<open>try\<close>, leaves \<^verbatim>\<open>runTasks\<close> without a logger call.
\<close>

fun strings_before :: "posarg list \<Rightarrow> string list" where
  "strings_before [] = []"
| "strings_before (PStr s # ps) = s # strings_before ps"
| "strings_before (PNum t # ps) = []"

definition not_a_string :: jsval where
  "not_a_string = ErrorObj ''TypeError'' ''tasksToRun[i].replace is not a function''"

definition runTasks_untyped :: "registry \<Rightarrow> registry \<Rightarrow> posarg list \<Rightarrow> flags \<Rightarrow> world
    \<Rightarrow> world \<times> batch_result" where
  "runTasks_untyped userTasks builtinsTasks tasksToRun taskArgs w =
     (case runTasks userTasks builtinsTasks (strings_before tasksToRun) taskArgs w of
        (w1, Completed) \<Rightarrow>
          if length (strings_before tasksToRun) < length tasksToRun
          then (w1, Failed not_a_string) else (w1, Completed)
      | (w1, Missing name) \<Rightarrow> (w1, Missing name)
      | (w1, Failed e) \<Rightarrow> (w1, Failed e))"

section \<open>The executor\<close>

text \<open>
  What the code takes from Deno, the standard library and the calling script:
  \<^item> \<open>run_process\<close>: a child process started by \<^verbatim>\<open>Deno.run\<close> with the given options,
    in the given working directory and among the given directories. \<^verbatim>\<open>Deno.run\<close>
    throws (\<open>Inl\<close>), or the child runs to its end; a child may create and remove
    directories, and cannot move its parent's working directory;
  \<^item> \<open>json_opts\<close> and \<open>json_quote\<close>: \<^verbatim>\<open>JSON.stringify\<close> of the options object and of
    a string;
  \<^item> \<open>url_pathname\<close>: \<^verbatim>\<open>new URL(u).pathname\<close>, which throws on a malformed URL;
    \<open>path_dirname\<close>, \<open>path_join\<close>, \<open>is_windows\<close>: \<^verbatim>\<open>path.dirname\<close>, \<^verbatim>\<open>path.join\<close>,
    \<^verbatim>\<open>Deno.build.os === 'windows'\<close>;
  \<^item> \<open>home\<close>: \<^verbatim>\<open>Deno.env.get('HOME')\<close>;
  \<^item> \<open>user_task_lines\<close>, \<open>builtin_task_lines\<close>: the lines \<^verbatim>\<open>printTasks\<close> writes for the two
    registries, which it reads off the source text of each function.
\<close>

record proc_result =
  stdout_text :: string
  exit_code :: int
  stderr_text :: string

record platform =
  run_process :: "run_options \<Rightarrow> string \<Rightarrow> string list \<Rightarrow> string list \<times> (jsval + proc_result)"
  json_opts :: "unit exec_opts \<Rightarrow> string"
  json_quote :: "string \<Rightarrow> string"
  url_pathname :: "string \<Rightarrow> jsval + string"
  path_dirname :: "string \<Rightarrow> string"
  path_join :: "string \<Rightarrow> string \<Rightarrow> string"
  is_windows :: bool
  home :: "string option"
  user_task_lines :: "string list"
  builtin_task_lines :: "string list"

text \<open>
  \<^verbatim>\<open>Deno.run(o)\<close> with both outputs read and the status awaited. The call is recorded;
  \<^verbatim>\<open>status.success\<close> is \<^verbatim>\<open>status.code == 0\<close>.
\<close>

definition Deno_run :: "platform \<Rightarrow> run_options \<Rightarrow> world \<Rightarrow> world \<times> (jsval + proc_result)" where
  "Deno_run rt ro w =
     (case run_process rt ro (cwd w) (dirs w) of
        (ds, r) \<Rightarrow> (w\<lparr>dirs := ds, spawned := spawned w @ [ro]\<rparr>, r))"

definition success :: "proc_result \<Rightarrow> bool" where
  "success p = (exit_code p = 0)"

text \<open>The \<^verbatim>\<open>cmd\<close> of \<^verbatim>\<open>_exec\<close>: a string, an argv, or run options.\<close>

datatype exec_cmd = ECmdStr string | ECmdArgv "string list" | ECmdOpts run_options

fun exec_cmd_text :: "exec_cmd \<Rightarrow> string" where
  "exec_cmd_text (ECmdStr s) = s"
| "exec_cmd_text (ECmdArgv a) = js_join '','' a"
| "exec_cmd_text (ECmdOpts ro) = ''[object Object]''"

definition run_failed :: "exec_cmd \<Rightarrow> proc_result \<Rightarrow> jsval" where
  "run_failed c p =
     ErrorObj ''Error''
       (''error while running '' @ sq @ exec_cmd_text c @ sq
        @ '', status code '' @ sq @ show_int (exit_code p) @ sq
        @ '', error '' @ sq @ stderr_text p @ sq)"

text \<open>
  \<open>u_exec\<close> is \<^verbatim>\<open>_exec({cmd, env})\<close> (lines 87 to 126), a name that cannot start with
  an underscore here: it builds the run options, sets \<^verbatim>\<open>env\<close> to the
  \<^verbatim>\<open>env\<close> it was given and both outputs to \<^verbatim>\<open>piped\<close>, runs the child, and returns its
  decoded output or throws on a status that is not a success.
\<close>

definition u_exec :: "platform \<Rightarrow> exec_cmd \<Rightarrow> (string \<times> string) list option \<Rightarrow> world
    \<Rightarrow> world \<times> (jsval + string)" where
  "u_exec rt c e w =
     (let o0 = (case c of
                  ECmdStr s \<Rightarrow> \<lparr>ro_cmd = js_split CHR '' '' s, ro_cwd = None, ro_env = None,
                                 ro_stdout = None, ro_stderr = None\<rparr>
                | ECmdArgv a \<Rightarrow> \<lparr>ro_cmd = a, ro_cwd = None, ro_env = None,
                                  ro_stdout = None, ro_stderr = None\<rparr>
                | ECmdOpts ro \<Rightarrow> ro);
          ro = o0\<lparr>ro_env := e, ro_stdout := Some ''piped'', ro_stderr := Some ''piped''\<rparr>;
          w1 = log_call ''exec'' TRACE (''cmd='' @ js_join '','' (ro_cmd ro)) [] w
      in case Deno_run rt ro w1 of
           (w2, Inl err) \<Rightarrow> (w2, Inl err)
         | (w2, Inr p) \<Rightarrow>
             if \<not> success p then (w2, Inl (run_failed c p))
             else (w2, Inr (stdout_text p)))"

text \<open>The loop over an array \<^verbatim>\<open>cmd\<close> (lines 42 to 48), \<open>out\<close> being the outputs so far.\<close>

fun exec_loop :: "platform \<Rightarrow> string list \<Rightarrow> string list \<Rightarrow> world
    \<Rightarrow> world \<times> (jsval + string list)" where
  "exec_loop rt [] out w = (w, Inr out)"
| "exec_loop rt (c # cs) out w =
     (case u_exec rt (ECmdStr c) None w of
        (w1, Inl err) \<Rightarrow> (w1, Inl err)
      | (w1, Inr o1) \<Rightarrow> exec_loop rt cs (out @ [o1]) w1)"

fun cmd_text :: "'f cmd \<Rightarrow> string" where
  "cmd_text (CmdStr s) = s"
| "cmd_text (CmdList cs) = js_join '','' cs"
| "cmd_text (CmdFun src f) = src"

definition erase_opts :: "'f exec_opts \<Rightarrow> unit exec_opts" where
  "erase_opts opts =
     \<lparr>cmd = map_cmd (\<lambda>f. ()) (cmd opts), dir = dir opts, env = env opts,
      silent = silent opts, logError = logError opts\<rparr>"

text \<open>The \<^verbatim>\<open>try\<close> block of \<^verbatim>\<open>exec\<close> (lines 38 to 68): \<open>Inl\<close> is what it throws.\<close>

definition exec_body :: "platform \<Rightarrow> fn exec_opts \<Rightarrow> world \<Rightarrow> world \<times> (jsval + string)" where
  "exec_body rt opts w =
     (case cmd opts of
        CmdList cs \<Rightarrow>
          (case exec_loop rt cs [] (log_call ''exec'' TRACE ''exec (string[])'' [LStrs cs] w) of
             (w1, Inl err) \<Rightarrow> (w1, Inl err)
           | (w1, Inr out) \<Rightarrow>
               (if silent opts = Some False then console_log (js_join nl out) w1 else w1,
                Inr (js_join nl out)))
      | CmdStr c \<Rightarrow>
          (case u_exec rt (ECmdStr c) None (log_call ''exec'' TRACE ''exec (string)'' [LStr c] w) of
             (w1, Inl err) \<Rightarrow> (w1, Inl err)
           | (w1, Inr out) \<Rightarrow>
               (if silent opts = Some False then console_log out w1 else w1, Inr out))
      | CmdFun src f \<Rightarrow>
          (case f (log_call ''exec'' TRACE ''exec (function)'' [LFun src] w) of
             (w1, r) \<Rightarrow>
               (case await_catch ''cmd'' r of
                  Some err \<Rightarrow> (w1, Inl err)
                | None \<Rightarrow> (w1, Inr []))))"

datatype 'a outcome = Returned 'a | Threw jsval

definition exec_failed :: "platform \<Rightarrow> 'f exec_opts \<Rightarrow> jsval \<Rightarrow> jsval" where
  "exec_failed rt opts err =
     ErrorObj ''Error''
       (''Error executing '' @ json_opts rt (erase_opts opts)
        @ '', error '' @ JSON_stringify (json_quote rt) err)"

text \<open>The \<^verbatim>\<open>try\<close> with its \<^verbatim>\<open>catch\<close> clause (lines 37 to 77).\<close>

definition exec_try :: "platform \<Rightarrow> fn exec_opts \<Rightarrow> world \<Rightarrow> world \<times> string outcome" where
  "exec_try rt opts w =
     (case exec_body rt opts w of
        (w1, Inr out) \<Rightarrow> (w1, Returned out)
      | (w1, Inl err) \<Rightarrow>
          (if logError opts \<noteq> Some False
           then log_call ''exec'' ERROR ''error while executing'' [LOpts (erase_opts opts), LVal err] w1
           else w1,
           Threw (exec_failed rt opts err)))"

definition chdir_failed :: "'f exec_opts \<Rightarrow> jsval \<Rightarrow> jsval" where
  "chdir_failed opts err =
     ErrorObj ''Error''
       (''Error changing working dir. Dir='' @ sq @ the (dir opts) @ sq
        @ '', cmd='' @ sq @ cmd_text (cmd opts) @ sq
        @ '', err='' @ js_String err)"

text \<open>
  The argument of \<^verbatim>\<open>exec\<close>: a string and an array are wrapped into options with that
  \<^verbatim>\<open>cmd\<close> and nothing else (lines 22 to 26).
\<close>

datatype exec_arg = ArgStr string | ArgList "string list" | ArgOpts "fn exec_opts"

fun normalise :: "exec_arg \<Rightarrow> fn exec_opts" where
  "normalise (ArgStr s) =
     \<lparr>cmd = CmdStr s, dir = None, env = None, silent = None, logError = None\<rparr>"
| "normalise (ArgList cs) =
     \<lparr>cmd = CmdList cs, dir = None, env = None, silent = None, logError = None\<rparr>"
| "normalise (ArgOpts opts) = opts"

text \<open>
  \<^verbatim>\<open>exec\<close> (lines 10 to 83). The directory is changed before the \<^verbatim>\<open>try\<close>, so a failure
  there is thrown with nothing run and no \<^verbatim>\<open>finally\<close>; the \<^verbatim>\<open>finally\<close> clause changes
  back when \<^verbatim>\<open>opts.dir\<close> is truthy, and what it throws replaces the outcome of the
  \<^verbatim>\<open>try\<close>.
\<close>

definition exec :: "platform \<Rightarrow> exec_arg \<Rightarrow> world \<Rightarrow> world \<times> string outcome" where
  "exec rt arg w =
     (let opts = normalise arg in
      case Deno_cwd w of
        Inl e \<Rightarrow> (w, Threw e)
      | Inr cwdOrginal \<Rightarrow>
          (case (if str_truthy (dir opts) then Deno_chdir (the (dir opts)) w else Inr w) of
             Inl err \<Rightarrow> (w, Threw (chdir_failed opts err))
           | Inr w1 \<Rightarrow>
               (case exec_try rt opts w1 of
                  (w2, r) \<Rightarrow>
                    if str_truthy (dir opts)
                    then (case Deno_chdir cwdOrginal w2 of
                            Inl e \<Rightarrow> (w2, Threw e)
                          | Inr w3 \<Rightarrow> (w3, r))
                    else (w2, r))))"

section \<open>The runner\<close>

text \<open>
  \<^verbatim>\<open>RunOpts\<close>: \<open>run_dir\<close> and \<open>run_default\<close> are its \<^verbatim>\<open>dir\<close> and \<^verbatim>\<open>default\<close>; \<open>meta\<close> is
  the \<^verbatim>\<open>url\<close> of the \<^verbatim>\<open>import.meta\<close> it was given, if it was given one.
\<close>

record run_opts =
  run_dir :: "string option"
  run_default :: "string option"
  logLevel :: "string option"
  tasks :: registry
  meta :: "string option"

text \<open>An optional string in a template literal: \<^verbatim>\<open>undefined\<close> prints as its name.\<close>

fun opt_text :: "string option \<Rightarrow> string" where
  "opt_text None = ''undefined''"
| "opt_text (Some s) = s"

text \<open>
  \<^verbatim>\<open>Deno.remove(p, { recursive: true })\<close>: the directory and everything under it goes;
  \<^verbatim>\<open>NotFound\<close> when it is not there.
\<close>

definition strip_slash :: "string \<Rightarrow> string" where
  "strip_slash p = (if 1 < length p \<and> last p = CHR ''/'' then butlast p else p)"

definition Deno_remove :: "string \<Rightarrow> world \<Rightarrow> jsval + world" where
  "Deno_remove p w =
     (let t = strip_slash (resolve_path (cwd w) p) in
      if t \<in> set (dirs w)
      then Inr (w\<lparr>dirs := filter (\<lambda>d. d \<noteq> t \<and> take (length t + 1) d \<noteq> t @ ''/'') (dirs w)\<rparr>)
      else Inl NotFound)"

text \<open>
  An object literal inherits the members of \<^verbatim>\<open>Object.prototype\<close>, so looking up one of
  their names gives a truthy value although the literal has no such key. Called the way
  the dispatcher calls a task (no receiver, the context as argument), \<^verbatim>\<open>constructor\<close>
  and \<^verbatim>\<open>toString\<close> return a value that is no promise, the other functions throw a
  \<^verbatim>\<open>TypeError\<close> for the missing receiver, and \<^verbatim>\<open>__proto__\<close> is an object, not a
  function.
\<close>

definition object_prototype :: registry where
  "object_prototype name =
     (if name \<in> set [''constructor'', ''toString'']
      then Some (\<lambda>ctxt w. (w, Returns NonPromise))
      else if name \<in> set [''toLocaleString'', ''valueOf'', ''hasOwnProperty'',
                            ''isPrototypeOf'', ''propertyIsEnumerable'', ''__defineGetter__'',
                            ''__defineSetter__'', ''__lookupGetter__'', ''__lookupSetter__'']
      then Some (\<lambda>ctxt w. (w, Throws (ErrorObj ''TypeError''
                                 ''Cannot convert undefined or null to object'')))
      else if name = ''__proto__''
      then Some (\<lambda>ctxt w. (w, Throws (ErrorObj ''TypeError'' ''task is not a function'')))
      else None)"

text \<open>
  The two builtins of \<^verbatim>\<open>newBuiltinsTasks\<close> (lines 64 to 100), both \<^verbatim>\<open>async\<close>; the
  registry is an object literal.
\<close>

definition builtin_cache_clear :: "platform \<Rightarrow> task" where
  "builtin_cache_clear rt ctxt w =
     (let cacheDir = opt_text (home rt) @ ''/.cache/deno/'';
          w1 = log_call (log ctxt) INFO (''Deleting cache dir: '' @ sq @ cacheDir @ sq) [] w
      in case Deno_remove cacheDir w1 of
           Inl e \<Rightarrow> (w1, Returns (Promise (Rejected e)))
         | Inr w2 \<Rightarrow> (w2, Returns (Promise Fulfilled)))"

definition builtin_help :: "platform \<Rightarrow> run_opts \<Rightarrow> task" where
  "builtin_help rt opts ctxt w =
     (console_log
        (js_join nl
           ([''Help:'', ''  User Tasks:''] @ user_task_lines rt
            @ [''  Builtin Tasks:''] @ builtin_task_lines rt
            @ [''  User supplied options:'',
               ''      defaultTask: '' @ opt_text (run_default opts),
               ''      dir: '' @ opt_text (run_dir opts),
               ''      logLevel: '' @ opt_text (logLevel opts)])) w,
      Returns (Promise Fulfilled))"

definition newBuiltinsTasks :: "platform \<Rightarrow> run_opts \<Rightarrow> registry" where
  "newBuiltinsTasks rt opts =
     (\<lambda>name. if name = ''_cache_clear'' then Some (builtin_cache_clear rt)
             else if name = ''_help'' then Some (builtin_help rt opts)
             else object_prototype name)"

definition no_meta :: jsval where
  "no_meta = StrVal (''No 'meta' (import.meta.url) set on RunArgs. THis needs to be set ''
     @ ''to calculate the basedir to use for all path related operations'')"

text \<open>\<^verbatim>\<open>setWorkingDir\<close> (lines 145 to 168): \<open>Some e\<close> when it throws \<open>e\<close>.\<close>

definition setWorkingDir :: "platform \<Rightarrow> run_opts \<Rightarrow> world \<Rightarrow> world \<times> jsval option" where
  "setWorkingDir rt opts w =
     (case meta opts of
        None \<Rightarrow> (w, Some no_meta)
      | Some url \<Rightarrow>
          if \<not> str_truthy (run_dir opts) then (w, None)
          else
            (case url_pathname rt url of
               Inl e \<Rightarrow> (w, Some e)
             | Inr pathname \<Rightarrow>
                 (let entryScript = (if is_windows rt then drop 1 pathname else pathname);
                      w1 = log_call ''run'' TRACE ''entryScript'' [LStr entryScript] w;
                      entryScriptDir = path_dirname rt entryScript;
                      w2 = log_call ''run'' TRACE ''entryScriptDir'' [LStr entryScriptDir] w1;
                      baseDir = path_join rt entryScriptDir (the (run_dir opts));
                      w3 = log_call ''run'' TRACE ''baseDir'' [LStr baseDir] w2
                  in case Deno_chdir baseDir w3 of
                       Inl e \<Rightarrow> (w3, Some e)
                     | Inr w4 \<Rightarrow> (w4, None))))"

text \<open>
  \<^verbatim>\<open>run\<close> (lines 112 to 139), given the parsed command line. \<^verbatim>\<open>Deno.cwd()\<close> and
  \<^verbatim>\<open>setWorkingDir\<close> stand before the \<^verbatim>\<open>try\<close>; the \<^verbatim>\<open>finally\<close> clause changes back to
  the directory read at the start, and what it throws replaces the outcome of
  \<^verbatim>\<open>runTasks\<close>. A batch that ran to its end and a batch that stopped at a missing task
  both return.
\<close>

definition run :: "platform \<Rightarrow> run_opts \<Rightarrow> parsed_args \<Rightarrow> world \<Rightarrow> world \<times> unit outcome" where
  "run rt opts parsed w =
     (let defaultTaskName =
            (if str_truthy (run_default opts) then the (run_default opts) else ''_help'');
          taskArgs = flags parsed;
          w1 = (if \<not> truthy (taskArgs ''log'') \<and> str_truthy (logLevel opts)
                then w\<lparr>log_level := the (logLevel opts)\<rparr> else w);
          tasks0 = (if positional parsed = [] then [PStr defaultTaskName]
                    else positional parsed);
          tasks1 = (if truthy (taskArgs ''help'') then [PStr ''_help''] else tasks0)
      in case Deno_cwd w1 of
           Inl e \<Rightarrow> (w1, Threw e)
         | Inr initCwd \<Rightarrow>
             (case setWorkingDir rt opts w1 of
                (w2, Some e) \<Rightarrow> (w2, Threw e)
              | (w2, None) \<Rightarrow>
                  (case runTasks_untyped (tasks opts) (newBuiltinsTasks rt opts) tasks1
                          taskArgs w2 of
                     (w3, r) \<Rightarrow>
                       (case Deno_chdir initCwd w3 of
                          Inl e \<Rightarrow> (w3, Threw e)
                        | Inr w4 \<Rightarrow>
                            (w4, case r of Failed e \<Rightarrow> Threw e | Completed \<Rightarrow> Returned ()
                                 | Missing name \<Rightarrow> Returned ())))))"

section \<open>A sample process, for running the definitions\<close>

text \<open>
  A working directory with a build directory below it and a directory elsewhere; children
  \<^verbatim>\<open>echo\<close> (prints its arguments), \<^verbatim>\<open>false\<close> (status 1), \<^verbatim>\<open>ls\<close> (status 2 and a line
  on its error output) and \<^verbatim>\<open>printenv\<close> (prints the variable if \<^verbatim>\<open>env\<close> sets it, status
  1 otherwise); any other program is not found.
\<close>

definition demo_world :: world where
  "demo_world =
     \<lparr>cwd = ''/home/u/proj'',
      dirs = [''/home/u/proj'', ''/home/u/proj/build'', ''/tmp/work''],
      log_level = ''info'', log_calls = [], console = [], spawned = []\<rparr>"

definition exited :: "string \<Rightarrow> int \<Rightarrow> string \<Rightarrow> jsval + proc_result" where
  "exited out c err = Inr \<lparr>stdout_text = out, exit_code = c, stderr_text = err\<rparr>"

definition demo_process ::
    "run_options \<Rightarrow> string \<Rightarrow> string list \<Rightarrow> string list \<times> (jsval + proc_result)" where
  "demo_process ro c ds =
     (case ro_cmd ro of
        [] \<Rightarrow> (ds, Inl NotFound)
      | prog # as \<Rightarrow>
          if prog = ''echo'' then (ds, exited (js_join '' '' as @ nl) 0 [])
          else if prog = ''false'' then (ds, exited [] 1 [])
          else if prog = ''ls'' then (ds, exited [] 2 ''ls: cannot access'')
          else if prog = ''printenv'' then
            (case ro_env ro of
               None \<Rightarrow> (ds, exited [] 1 [])
             | Some e \<Rightarrow>
                 (case map_of e (js_join '' '' as) of
                    None \<Rightarrow> (ds, exited [] 1 [])
                  | Some v \<Rightarrow> (ds, exited (v @ nl) 0 [])))
          else (ds, Inl NotFound))"

text \<open>
  A sample \<^verbatim>\<open>JSON.stringify\<close>, for strings that need no escape and for options written
  in the order \<^verbatim>\<open>cmd\<close>, \<^verbatim>\<open>dir\<close>, \<^verbatim>\<open>env\<close>, \<^verbatim>\<open>silent\<close>, \<^verbatim>\<open>logError\<close>: a property
  that is not set, and a \<^verbatim>\<open>cmd\<close> that is a function, are left out.
\<close>

definition demo_quote :: "string \<Rightarrow> string" where
  "demo_quote s = dq @ s @ dq"

definition json_bool :: "bool \<Rightarrow> string" where
  "json_bool b = (if b then ''true'' else ''false'')"

definition demo_json_opts :: "unit exec_opts \<Rightarrow> string" where
  "demo_json_opts opts =
     ''{'' @ js_join '',''
       ((case cmd opts of
           CmdStr s \<Rightarrow> [demo_quote ''cmd'' @ '':'' @ demo_quote s]
         | CmdList cs \<Rightarrow>
             [demo_quote ''cmd'' @ '':['' @ js_join '','' (map demo_quote cs) @ '']'']
         | CmdFun src f \<Rightarrow> [])
        @ (case dir opts of None \<Rightarrow> [] | Some d \<Rightarrow> [demo_quote ''dir'' @ '':'' @ demo_quote d])
        @ (case env opts of
             None \<Rightarrow> []
           | Some e \<Rightarrow>
               [demo_quote ''env'' @ '':{''
                @ js_join '','' (map (\<lambda>(k, v). demo_quote k @ '':'' @ demo_quote v) e) @ ''}''])
        @ (case silent opts of None \<Rightarrow> [] | Some b \<Rightarrow> [demo_quote ''silent'' @ '':'' @ json_bool b])
        @ (case logError opts of
             None \<Rightarrow> []
           | Some b \<Rightarrow> [demo_quote ''logError'' @ '':'' @ json_bool b]))
     @ ''}''"

definition demo_platform :: platform where
  "demo_platform =
     \<lparr>run_process = demo_process, json_opts = demo_json_opts, json_quote = demo_quote,
      url_pathname = (\<lambda>u. if take 7 u = ''file://'' then Inr (drop 7 u)
                          else Inl (ErrorObj ''TypeError'' ''Invalid URL'')),
      path_dirname = (\<lambda>p. rev (drop 1 (dropWhile (\<lambda>c. c \<noteq> CHR ''/'') (rev p)))),
      path_join = (\<lambda>a b. a @ ''/'' @ b),
      is_windows = False, home = Some ''/home/u'',
      user_task_lines = [], builtin_task_lines = []\<rparr>"

text \<open>
  Sample tasks: one that prints and is fulfilled, one that is rejected, one that is
  synchronous and returns nothing, one that leaves the working directory elsewhere, and
  one that goes elsewhere and removes the directory the process started in. The sample
  registry is an object literal.
\<close>

definition task_ok :: task where
  "task_ok ctxt w = (console_log (''ran '' @ log ctxt) w, Returns (Promise Fulfilled))"

definition task_rejects :: task where
  "task_rejects ctxt w = (w, Returns (Promise (Rejected (ErrorObj ''Error'' ''boom''))))"

definition task_sync :: task where
  "task_sync ctxt w = (console_log (''ran '' @ log ctxt) w, Returns Undefined)"

definition task_moves :: task where
  "task_moves ctxt w =
     (case Deno_chdir ''/tmp/work'' w of
        Inl e \<Rightarrow> (w, Returns (Promise (Rejected e)))
      | Inr w' \<Rightarrow> (w', Returns (Promise Fulfilled)))"

definition task_cleans :: task where
  "task_cleans ctxt w =
     (case Deno_chdir ''/tmp/work'' w of
        Inl e \<Rightarrow> (w, Returns (Promise (Rejected e)))
      | Inr w1 \<Rightarrow>
          (case Deno_remove ''/home/u/proj'' w1 of
             Inl e \<Rightarrow> (w1, Returns (Promise (Rejected e)))
           | Inr w2 \<Rightarrow> (w2, Returns (Promise Fulfilled))))"

definition demo_tasks :: registry where
  "demo_tasks name =
     (case map_of [(''task_build'', task_ok), (''test'', task_rejects), (''a_b_c'', task_ok),
                   (''lint'', task_sync), (''wander'', task_moves), (''clean'', task_cleans)]
             name of
        Some t \<Rightarrow> Some t
      | None \<Rightarrow> object_prototype name)"

definition demo_opts :: run_opts where
  "demo_opts =
     \<lparr>run_dir = Some ''build'', run_default = None, logLevel = None, tasks = demo_tasks,
      meta = Some ''file:///home/u/proj/run.ts''\<rparr>"

definition no_flags :: flags where
  "no_flags = (\<lambda>name. None)"

text \<open>
  Options for the executor whose function command removes the directory the process
  started in, run in another directory.
\<close>

definition removing_opts :: "fn exec_opts" where
  "removing_opts =
     \<lparr>cmd = CmdFun ''async () => { await Deno.remove(orig, { recursive: true }) }''
        (\<lambda>w. case Deno_remove ''/home/u/proj'' w of
                Inl e \<Rightarrow> (w, Returns (Promise (Rejected e)))
              | Inr w' \<Rightarrow> (w', Returns (Promise Fulfilled))),
      dir = Some ''/tmp/work'', env = None, silent = None, logError = None\<rparr>"

text \<open>The run options \<^verbatim>\<open>_exec\<close> hands to \<^verbatim>\<open>Deno.run\<close> when it is given no \<^verbatim>\<open>env\<close>.\<close>

definition piped :: "string list \<Rightarrow> run_options" where
  "piped argv = \<lparr>ro_cmd = argv, ro_cwd = None, ro_env = None,
                  ro_stdout = Some ''piped'', ro_stderr = Some ''piped''\<rparr>"

text \<open>
  Sample options for the executor: a command run in the build directory, a sequence to
  be run in a directory that is not there, \<^verbatim>\<open>echo hello\<close> with a given \<^verbatim>\<open>silent\<close>, a
  command with an environment variable, and a synchronous function.
\<close>

definition build_opts :: "fn exec_opts" where
  "build_opts = \<lparr>cmd = CmdStr ''echo hello'', dir = Some ''build'', env = None,
                  silent = Some False, logError = None\<rparr>"

definition nowhere_opts :: "fn exec_opts" where
  "nowhere_opts = \<lparr>cmd = CmdList [''echo a'', ''echo b''], dir = Some ''nowhere'', env = None,
                  silent = None, logError = None\<rparr>"

definition echo_opts :: "bool option \<Rightarrow> fn exec_opts" where
  "echo_opts s = \<lparr>cmd = CmdStr ''echo hello'', dir = None, env = None, silent = s,
                   logError = None\<rparr>"

definition env_opts :: "fn exec_opts" where
  "env_opts = \<lparr>cmd = CmdStr ''printenv FOO'', dir = None, env = Some [(''FOO'', ''bar'')],
                 silent = None, logError = None\<rparr>"

definition sync_opts :: "fn exec_opts" where
  "sync_opts =
     \<lparr>cmd = CmdFun ''() => { console.log(1) }'' (\<lambda>w. (console_log ''1'' w, Returns Undefined)),
      dir = None, env = None, silent = None, logError = None\<rparr>"

definition sync_dir_opts :: "fn exec_opts" where
  "sync_dir_opts = sync_opts\<lparr>dir := Some ''build''\<rparr>"


section \<open>The dispatcher\<close>

text \<open>
  A batch is run name by name: the names after a prefix that ran to its end are run from
  the state the prefix left, and a prefix that stopped decides the batch.
\<close>

lemma runTasks_append:
  "runTasks u b (pre @ rest) a w =
     (case runTasks u b pre a w of
        (w1, Completed) \<Rightarrow> runTasks u b rest a w1
      | (w1, Missing name) \<Rightarrow> (w1, Missing name)
      | (w1, Failed e) \<Rightarrow> (w1, Failed e))"
proof (induction pre arbitrary: w)
  case Nil
  show ?case by simp
next
  case (Cons n pre)
  show ?case
    by (simp add: Cons.IH Let_def split: option.split prod.split)
qed

lemma runTasks_after_completed:
  "runTasks u b pre a w = (w1, Completed) \<Longrightarrow>
   runTasks u b (pre @ rest) a w = runTasks u b rest a w1"
  by (simp add: runTasks_append)

text \<open>
  Claim C1. Let the names before \<open>n\<close> have run to their end, leaving the state \<open>w1\<close>,
  and let the task that \<open>n\<close> resolves to throw \<open>err\<close> when called, or return a promise
  rejected with \<open>err\<close>, leaving \<open>w2\<close>. Then the dispatcher calls \<^verbatim>\<open>log.error\<close> with the
  task's name in the message and \<open>err\<close> as argument, and throws a new value, a string
  that names the task. The outcome is the same whatever names \<open>rest\<close> follow \<open>n\<close>: the
  state is \<open>w2\<close> with that one logger call added, so none of them is run.
\<close>

theorem failing_task_stops_batch:
  assumes reached: "runTasks userTasks builtinsTasks pre taskArgs w = (w1, Completed)"
    and found: "lookup_task userTasks builtinsTasks (js_replace CHR ''-'' CHR ''_'' n) = Some task"
    and called: "task \<lparr>args = taskArgs, log = ''task.'' @ js_replace CHR ''-'' CHR ''_'' n\<rparr>
                   (log_call ''run'' DEBUG (running_msg (js_replace CHR ''-'' CHR ''_'' n)) [] w1)
                 = (w2, r)"
    and throws: "r = Throws err \<or> r = Returns (Promise (Rejected err))"
  shows "runTasks userTasks builtinsTasks (pre @ n # rest) taskArgs w =
           (log_call ''run'' ERROR
              (''Task '' @ sq @ js_replace CHR ''-'' CHR ''_'' n @ sq @ '' threw an error'')
              [LVal err] w2,
            Failed (StrVal (''Task '' @ sq @ js_replace CHR ''-'' CHR ''_'' n @ '' threw an error'')))"
proof -
  from throws have "await_catch ''task'' r = Some err" by auto
  with found called
  have "runTasks userTasks builtinsTasks (n # rest) taskArgs w1 =
          (log_call ''run'' ERROR (threw_msg (js_replace CHR ''-'' CHR ''_'' n)) [LVal err] w2,
           Failed (task_failure (js_replace CHR ''-'' CHR ''_'' n)))"
    by (simp add: Let_def)
  with reached show ?thesis
    by (simp add: runTasks_after_completed threw_msg_def task_failure_def)
qed

text \<open>
  The sample batch \<^verbatim>\<open>build test lint build\<close>: \<^verbatim>\<open>build\<close> runs, \<^verbatim>\<open>test\<close> is rejected,
  and nothing of \<^verbatim>\<open>lint\<close> or of the second \<^verbatim>\<open>build\<close> shows in the final state.
\<close>

theorem failing_task_stops_batch_witness:
  "runTasks demo_tasks (newBuiltinsTasks demo_platform demo_opts)
     ([''build''] @ ''test'' # [''lint'', ''build'']) no_flags demo_world =
   (demo_world\<lparr>log_calls :=
       [LogEvent ''run'' DEBUG (''running task: '' @ sq @ ''build'' @ sq) [],
        LogEvent ''run'' DEBUG (''running task: '' @ sq @ ''test'' @ sq) [],
        LogEvent ''run'' ERROR (''Task '' @ sq @ ''test'' @ sq @ '' threw an error'')
          [LVal (ErrorObj ''Error'' ''boom'')]],
      console := [''ran task.build'']\<rparr>,
    Failed (StrVal (''Task '' @ sq @ ''test'' @ '' threw an error'')))"
proof -
  let ?b = "newBuiltinsTasks demo_platform demo_opts"
  let ?w1 = "demo_world\<lparr>log_calls := [LogEvent ''run'' DEBUG (running_msg ''build'') []],
                console := [''ran task.build'']\<rparr>"
  have reached: "runTasks demo_tasks ?b [''build''] no_flags demo_world = (?w1, Completed)"
    by (simp add: demo_tasks_def object_prototype_def lookup_task_def task_ok_def log_call_def console_log_def
        demo_world_def Let_def)
  have found: "lookup_task demo_tasks ?b (js_replace CHR ''-'' CHR ''_'' ''test'') = Some task_rejects"
    by (simp add: demo_tasks_def object_prototype_def lookup_task_def)
  have called: "task_rejects \<lparr>args = no_flags, log = ''task.'' @ js_replace CHR ''-'' CHR ''_'' ''test''\<rparr>
       (log_call ''run'' DEBUG (running_msg (js_replace CHR ''-'' CHR ''_'' ''test'')) [] ?w1)
      = (log_call ''run'' DEBUG (running_msg ''test'') [] ?w1,
         Returns (Promise (Rejected (ErrorObj ''Error'' ''boom''))))"
    by (simp add: task_rejects_def)
  show ?thesis
    using failing_task_stops_batch [OF reached found called, of "ErrorObj ''Error'' ''boom''" "[''lint'', ''build'']"]
    by (simp add: log_call_def running_msg_def demo_world_def)
qed

text \<open>
  Claim C2. Let the names before \<open>n\<close> have run to their end, leaving the state \<open>w1\<close>,
  and let the name looked up for \<open>n\<close> be no key of the user's tasks, neither as it is nor
  after \<^verbatim>\<open>task_\<close>, and no builtin. Then the dispatcher calls \<^verbatim>\<open>log.error\<close> with a
  message that names the missing task and says to run \<^verbatim>\<open>_help\<close>, and returns: the
  outcome is \<open>Missing\<close>, not \<open>Failed\<close>. The state is \<open>w1\<close>, what the earlier tasks left, with
  that logger call added, whatever names \<open>rest\<close> follow \<open>n\<close>: none of them is run.
\<close>

theorem missing_task_stops_batch:
  assumes reached: "runTasks userTasks builtinsTasks pre taskArgs w = (w1, Completed)"
    and no_user: "userTasks (js_replace CHR ''-'' CHR ''_'' n) = None"
    and no_prefixed: "userTasks (''task_'' @ js_replace CHR ''-'' CHR ''_'' n) = None"
    and no_builtin: "builtinsTasks (js_replace CHR ''-'' CHR ''_'' n) = None"
  shows "runTasks userTasks builtinsTasks (pre @ n # rest) taskArgs w =
           (log_call ''run'' ERROR
              (''could not find task function '' @ sq @ js_replace CHR ''-'' CHR ''_'' n @ sq
               @ ''. Run '_help' to show available tasks'') [] w1,
            Missing (js_replace CHR ''-'' CHR ''_'' n))"
proof -
  from no_user no_prefixed no_builtin
  have "lookup_task userTasks builtinsTasks (js_replace CHR ''-'' CHR ''_'' n) = None"
    by (simp add: lookup_task_def)
  then have "runTasks userTasks builtinsTasks (n # rest) taskArgs w1 =
      (log_call ''run'' ERROR (missing_msg (js_replace CHR ''-'' CHR ''_'' n)) [] w1,
       Missing (js_replace CHR ''-'' CHR ''_'' n))"
    by (simp add: Let_def)
  with reached show ?thesis
    by (simp add: runTasks_after_completed missing_msg_def)
qed

text \<open>
  The sample batch \<^verbatim>\<open>build deploy build test\<close>: \<^verbatim>\<open>build\<close> runs once, \<^verbatim>\<open>deploy\<close> is
  not found, and the batch returns there.
\<close>

theorem missing_task_stops_batch_witness:
  "runTasks demo_tasks (newBuiltinsTasks demo_platform demo_opts)
     ([''build''] @ ''deploy'' # [''build'', ''test'']) no_flags demo_world =
   (demo_world\<lparr>log_calls :=
       [LogEvent ''run'' DEBUG (''running task: '' @ sq @ ''build'' @ sq) [],
        LogEvent ''run'' ERROR (''could not find task function '' @ sq @ ''deploy'' @ sq
               @ ''. Run '_help' to show available tasks'') []],
      console := [''ran task.build'']\<rparr>,
    Missing ''deploy'')"
proof -
  let ?b = "newBuiltinsTasks demo_platform demo_opts"
  let ?w1 = "demo_world\<lparr>log_calls := [LogEvent ''run'' DEBUG (running_msg ''build'') []],
                console := [''ran task.build'']\<rparr>"
  have reached: "runTasks demo_tasks ?b [''build''] no_flags demo_world = (?w1, Completed)"
    by (simp add: demo_tasks_def object_prototype_def lookup_task_def task_ok_def log_call_def console_log_def
        demo_world_def Let_def)
  have no_user: "demo_tasks (js_replace CHR ''-'' CHR ''_'' ''deploy'') = None"
    by (simp add: demo_tasks_def object_prototype_def)
  have no_prefixed: "demo_tasks (''task_'' @ js_replace CHR ''-'' CHR ''_'' ''deploy'') = None"
    by (simp add: demo_tasks_def object_prototype_def)
  have no_builtin: "?b (js_replace CHR ''-'' CHR ''_'' ''deploy'') = None"
    by (simp add: newBuiltinsTasks_def object_prototype_def)
  show ?thesis
    using missing_task_stops_batch [OF reached no_user no_prefixed no_builtin, of "[''build'', ''test'']"]
    by (simp add: log_call_def running_msg_def demo_world_def)
qed

text \<open>
  A name that only \<^verbatim>\<open>Object.prototype\<close> knows is not missing: the lookup gives the
  inherited function, the dispatcher calls it, and the batch fails there.
\<close>

lemma inherited_name_is_called:
  "runTasks (\<lambda>name. None) (newBuiltinsTasks rt opts) (''toString'' # rest) taskArgs w =
     (log_call ''run'' ERROR (threw_msg ''toString'')
        [LVal (ErrorObj ''TypeError'' ''task(...).catch is not a function'')]
        (log_call ''run'' DEBUG (running_msg ''toString'') [] w),
      Failed (task_failure ''toString''))"
  by (simp add: lookup_task_def newBuiltinsTasks_def object_prototype_def Let_def)

text \<open>
  Where a name has one dash, the replacement of \<^verbatim>\<open>runTasks\<close> is the replacement of every
  dash; a name without a dash is looked up as it is.
\<close>

lemma replace_every_absent:
  "a \<notin> set t \<Longrightarrow> replace_every a b t = t"
  by (induction t) (auto simp: replace_every_def)

lemma js_replace_absent:
  "a \<notin> set t \<Longrightarrow> js_replace a b t = t"
  by (induction t) auto

lemma js_replace_single:
  "a \<notin> set s \<Longrightarrow> a \<notin> set t \<Longrightarrow>
   js_replace a b (s @ a # t) = replace_every a b (s @ a # t)"
proof (induction s)
  case Nil
  then show ?case
    using replace_every_absent [of a t b] by (simp add: replace_every_def)
next
  case (Cons c s)
  then show ?case by (auto simp: replace_every_def)
qed

text \<open>
  Claim C3. The name \<^verbatim>\<open>a-b-c\<close> has two dashes; with every dash replaced it is
  \<^verbatim>\<open>a_b_c\<close>, a task of the sample registry. \<^verbatim>\<open>runTasks\<close> replaces the first dash only and
  looks up \<^verbatim>\<open>a_b-c\<close>, which is no task: the batch stops at a missing task, where the
  request for \<^verbatim>\<open>a_b_c\<close> runs the task to its end.
\<close>

theorem dash_replaced_once:
  "js_replace CHR ''-'' CHR ''_'' ''a-b-c'' = ''a_b-c'' \<and>
   replace_every CHR ''-'' CHR ''_'' ''a-b-c'' = ''a_b_c'' \<and>
   snd (runTasks demo_tasks (newBuiltinsTasks demo_platform demo_opts) [''a-b-c''] no_flags demo_world)
     = Missing ''a_b-c'' \<and>
   snd (runTasks demo_tasks (newBuiltinsTasks demo_platform demo_opts) [''a_b_c''] no_flags demo_world)
     = Completed"
  by (simp add: replace_every_def demo_tasks_def object_prototype_def lookup_task_def task_ok_def Let_def
      newBuiltinsTasks_def object_prototype_def)

text \<open>
  Claim C4. Let the names before \<open>n\<close> have run to their end, leaving the state \<open>wa\<close>, and
  let \<open>called name rest t wa\<close> be what the dispatcher does once it has found the task \<open>t\<close>
  for \<open>name\<close>: it calls \<open>t\<close> with the context of that name, and then fails the batch or
  goes on with \<open>rest\<close>. For the requested name \<open>n\<close>, after the replacement of its dash:
  the dispatcher calls the user task of exactly that name when there is one; otherwise
  the user task \<^verbatim>\<open>task_<name>\<close> when there is one; otherwise the builtin of that name
  when there is one. In particular, with a user task \<^verbatim>\<open>task_build\<close> and none called
  \<^verbatim>\<open>build\<close>, a request for \<^verbatim>\<open>build\<close> calls \<^verbatim>\<open>task_build\<close>.
\<close>

theorem resolution_precedence:
  fixes userTasks builtinsTasks :: registry and taskArgs :: flags
  defines "called \<equiv> \<lambda>name rest t wa.
     (case t \<lparr>args = taskArgs, log = ''task.'' @ name\<rparr>
             (log_call ''run'' DEBUG (running_msg name) [] wa) of
        (wb, r) \<Rightarrow>
          (case await_catch ''task'' r of
             Some err \<Rightarrow>
               (log_call ''run'' ERROR (threw_msg name) [LVal err] wb,
                Failed (task_failure name))
           | None \<Rightarrow> runTasks userTasks builtinsTasks rest taskArgs wb))"
  assumes reached: "runTasks userTasks builtinsTasks pre taskArgs w = (wa, Completed)"
  shows "(userTasks (js_replace CHR ''-'' CHR ''_'' n) = Some t
            \<longrightarrow> runTasks userTasks builtinsTasks (pre @ n # rest) taskArgs w
                  = called (js_replace CHR ''-'' CHR ''_'' n) rest t wa) \<and>
         (userTasks (js_replace CHR ''-'' CHR ''_'' n) = None \<and>
          userTasks (''task_'' @ js_replace CHR ''-'' CHR ''_'' n) = Some t
            \<longrightarrow> runTasks userTasks builtinsTasks (pre @ n # rest) taskArgs w
                  = called (js_replace CHR ''-'' CHR ''_'' n) rest t wa) \<and>
         (userTasks (js_replace CHR ''-'' CHR ''_'' n) = None \<and>
          userTasks (''task_'' @ js_replace CHR ''-'' CHR ''_'' n) = None \<and>
          builtinsTasks (js_replace CHR ''-'' CHR ''_'' n) = Some t
            \<longrightarrow> runTasks userTasks builtinsTasks (pre @ n # rest) taskArgs w
                  = called (js_replace CHR ''-'' CHR ''_'' n) rest t wa) \<and>
         (userTasks ''task_build'' = Some t \<and> userTasks ''build'' = None
            \<longrightarrow> runTasks userTasks builtinsTasks (pre @ ''build'' # rest) taskArgs w
                  = called ''build'' rest t wa)"
proof -
  have step: "runTasks userTasks builtinsTasks (m # rest) taskArgs wa
                = called (js_replace CHR ''-'' CHR ''_'' m) rest t wa"
    if "lookup_task userTasks builtinsTasks (js_replace CHR ''-'' CHR ''_'' m) = Some t" for m
    using that by (simp add: called_def Let_def split: prod.split option.split)
  have whole: "runTasks userTasks builtinsTasks (pre @ m # rest) taskArgs w
                = called (js_replace CHR ''-'' CHR ''_'' m) rest t wa"
    if "lookup_task userTasks builtinsTasks (js_replace CHR ''-'' CHR ''_'' m) = Some t" for m
    using step [OF that] reached by (simp add: runTasks_after_completed)
  have build: "js_replace CHR ''-'' CHR ''_'' ''build'' = ''build''" by simp
  show ?thesis
    using whole [of n] whole [of "''build''"] build
    by (auto simp: lookup_task_def)
qed

text \<open>
  In the sample registry a request for \<^verbatim>\<open>build\<close> runs \<^verbatim>\<open>task_build\<close> under the name
  \<^verbatim>\<open>build\<close>, a request for \<^verbatim>\<open>test\<close> runs the user's task of that name, which is
  rejected, and a request for \<^verbatim>\<open>_help\<close> runs the builtin, which prints.
\<close>

theorem resolution_precedence_witness:
  "demo_tasks ''task_build'' = Some task_ok \<and> demo_tasks ''build'' = None \<and>
   runTasks demo_tasks (newBuiltinsTasks demo_platform demo_opts) ([] @ ''build'' # []) no_flags
       demo_world
     = (demo_world\<lparr>log_calls := [LogEvent ''run'' DEBUG (running_msg ''build'') []],
                     console := [''ran task.build'']\<rparr>, Completed) \<and>
   demo_tasks ''test'' = Some task_rejects \<and>
   runTasks demo_tasks (newBuiltinsTasks demo_platform demo_opts) ([] @ ''test'' # []) no_flags
       demo_world
     = (demo_world\<lparr>log_calls :=
          [LogEvent ''run'' DEBUG (running_msg ''test'') [],
           LogEvent ''run'' ERROR (threw_msg ''test'') [LVal (ErrorObj ''Error'' ''boom'')]]\<rparr>,
        Failed (task_failure ''test'')) \<and>
   demo_tasks ''_help'' = None \<and> demo_tasks ''task__help'' = None \<and>
   newBuiltinsTasks demo_platform demo_opts ''_help'' = Some (builtin_help demo_platform demo_opts) \<and>
   runTasks demo_tasks (newBuiltinsTasks demo_platform demo_opts) ([] @ ''_help'' # []) no_flags
       demo_world
     = (demo_world\<lparr>log_calls := [LogEvent ''run'' DEBUG (running_msg ''_help'') []],
          console := [js_join nl
            [''Help:'', ''  User Tasks:'', ''  Builtin Tasks:'', ''  User supplied options:'',
             ''      defaultTask: undefined'', ''      dir: build'',
             ''      logLevel: undefined'']]\<rparr>,
        Completed)"
proof -
  let ?b = "newBuiltinsTasks demo_platform demo_opts"
  have start: "runTasks demo_tasks ?b [] no_flags demo_world = (demo_world, Completed)"
    by simp
  have a: "demo_tasks ''task_build'' = Some task_ok \<and> demo_tasks ''build'' = None"
    by (simp add: demo_tasks_def object_prototype_def)
  have b: "demo_tasks (js_replace CHR ''-'' CHR ''_'' ''test'') = Some task_rejects"
    by (simp add: demo_tasks_def object_prototype_def)
  have c: "demo_tasks (js_replace CHR ''-'' CHR ''_'' ''_help'') = None \<and>
           demo_tasks (''task_'' @ js_replace CHR ''-'' CHR ''_'' ''_help'') = None \<and>
           ?b (js_replace CHR ''-'' CHR ''_'' ''_help'') = Some (builtin_help demo_platform demo_opts)"
    by (simp add: demo_tasks_def object_prototype_def newBuiltinsTasks_def)
  from resolution_precedence [OF start, where n = "''build''" and t = task_ok and rest = "[]",
      THEN conjunct2, THEN conjunct2, THEN conjunct2, THEN mp, OF a]
  have k1: "runTasks demo_tasks ?b ([] @ ''build'' # []) no_flags demo_world
     = (demo_world\<lparr>log_calls := [LogEvent ''run'' DEBUG (running_msg ''build'') []],
                     console := [''ran task.build'']\<rparr>, Completed)"
    by (simp add: task_ok_def log_call_def console_log_def demo_world_def)
  from resolution_precedence [OF start, where n = "''test''" and t = task_rejects and rest = "[]",
      THEN conjunct1, THEN mp, OF b]
  have k2: "runTasks demo_tasks ?b ([] @ ''test'' # []) no_flags demo_world
     = (demo_world\<lparr>log_calls :=
          [LogEvent ''run'' DEBUG (running_msg ''test'') [],
           LogEvent ''run'' ERROR (threw_msg ''test'') [LVal (ErrorObj ''Error'' ''boom'')]]\<rparr>,
        Failed (task_failure ''test''))"
    by (simp add: task_rejects_def log_call_def demo_world_def)
  from resolution_precedence [OF start, where n = "''_help''"
      and t = "builtin_help demo_platform demo_opts" and rest = "[]",
      THEN conjunct2, THEN conjunct2, THEN conjunct1, THEN mp, OF c]
  have k3: "runTasks demo_tasks ?b ([] @ ''_help'' # []) no_flags demo_world
     = (demo_world\<lparr>log_calls := [LogEvent ''run'' DEBUG (running_msg ''_help'') []],
          console := [js_join nl
            [''Help:'', ''  User Tasks:'', ''  Builtin Tasks:'', ''  User supplied options:'',
             ''      defaultTask: undefined'', ''      dir: build'',
             ''      logLevel: undefined'']]\<rparr>,
        Completed)"
    by (simp add: builtin_help_def demo_platform_def demo_opts_def log_call_def console_log_def
        demo_world_def)
  from c have c': "demo_tasks ''_help'' = None \<and> demo_tasks ''task__help'' = None \<and>
      ?b ''_help'' = Some (builtin_help demo_platform demo_opts)"
    by simp
  from b have b': "demo_tasks ''test'' = Some task_rejects" by simp
  show ?thesis
    by (intro conjI) (use a b' c' k1 k2 k3 in \<open>simp_all only: simp_thms\<close>)
qed

section \<open>The executor: what a command does to the process\<close>

lemma Deno_chdir_cases:
  "Deno_chdir p w = Inl e \<Longrightarrow> e = NotFound"
  by (simp add: Deno_chdir_def split: if_splits)

lemma Deno_chdir_frame:
  "Deno_chdir p w = Inr w' \<Longrightarrow> w' = w\<lparr>cwd := resolve_path (cwd w) p\<rparr>"
  by (auto simp: Deno_chdir_def split: if_splits)

lemma Deno_chdir_absolute:
  "is_absolute p \<Longrightarrow> Deno_chdir p w = Inr w' \<Longrightarrow> cwd w' = p"
  by (auto simp: Deno_chdir_def resolve_path_def split: if_splits)

lemma Deno_cwd_Inr:
  "Deno_cwd w = Inr c \<Longrightarrow> c = cwd w"
  by (simp add: Deno_cwd_def split: if_splits)


text \<open>
  One command string: one child, started without \<^verbatim>\<open>env\<close> unless \<^verbatim>\<open>_exec\<close> was given
  one; the working directory and the console are left alone.
\<close>

lemma u_exec_string:
  "u_exec rt (ECmdStr c) e w = (w', r) \<Longrightarrow>
     cwd w' = cwd w \<and> console w' = console w \<and>
     spawned w' = spawned w @ [(piped (js_split CHR '' '' c))\<lparr>ro_env := e\<rparr>]"
  by (auto simp: u_exec_def Deno_run_def log_call_def piped_def Let_def
      split: prod.splits sum.splits if_splits)

lemma u_exec_string_ok:
  "u_exec rt (ECmdStr c) e w = (w', Inr out) \<Longrightarrow>
     \<exists>p. run_process rt ((piped (js_split CHR '' '' c))\<lparr>ro_env := e\<rparr>) (cwd w) (dirs w) = (dirs w', Inr p)
       \<and> exit_code p = 0 \<and> out = stdout_text p"
  by (auto simp: u_exec_def Deno_run_def log_call_def piped_def success_def Let_def
      split: prod.splits sum.splits if_splits)

lemma exec_loop_frame:
  "exec_loop rt cs out w = (w', r) \<Longrightarrow>
     cwd w' = cwd w \<and> console w' = console w \<and>
     (\<exists>new. spawned w' = spawned w @ new \<and> list_all (\<lambda>ro. ro_env ro = None) new)"
proof (induction cs arbitrary: out w)
  case Nil
  then show ?case by auto
next
  case (Cons c cs)
  obtain w1 r1 where step: "u_exec rt (ECmdStr c) None w = (w1, r1)"
    by (cases "u_exec rt (ECmdStr c) None w")
  note f1 = u_exec_string [OF step]
  show ?case
  proof (cases r1)
    case (Inl err)
    with Cons.prems step f1 show ?thesis by (auto simp: piped_def)
  next
    case (Inr o1)
    with Cons.prems step have "exec_loop rt cs (out @ [o1]) w1 = (w', r)" by simp
    from Cons.IH [OF this] f1 show ?thesis by (auto simp: piped_def)
  qed
qed

text \<open>
  The commands of a sequence run in order, each from the state the one before left, and
  the loop ends at the first that fails: the commands after it are not run.
\<close>

lemma exec_loop_append:
  "exec_loop rt (pre @ rest) out w =
     (case exec_loop rt pre out w of
        (w1, Inl err) \<Rightarrow> (w1, Inl err)
      | (w1, Inr out1) \<Rightarrow> exec_loop rt rest out1 w1)"
  by (induction pre arbitrary: out w) (auto split: prod.splits sum.splits)

lemma exec_loop_stops_at_failure:
  assumes "exec_loop rt pre out w = (w1, Inr outs)"
    and "u_exec rt (ECmdStr b) None w1 = (w2, Inl err)"
  shows "exec_loop rt (pre @ b # rest) out w = (w2, Inl err)"
  using assms by (simp add: exec_loop_append)

text \<open>
  What \<^verbatim>\<open>exec\<close> throws for a failed command of a sequence: the commands before \<open>b\<close> ran,
  the child of \<open>b\<close> ended with a status \<open>p\<close> that is not zero. The error of \<^verbatim>\<open>_exec\<close>,
  \<open>run_failed\<close>, which holds the status code and the error output, goes to \<^verbatim>\<open>log.error\<close>;
  the error thrown to the caller holds the options and \<^verbatim>\<open>{}\<close>.
\<close>

lemma exec_sequence_failure:
  assumes here: "Deno_cwd w = Inr c"
    and before: "exec_loop rt pre [] (log_call ''exec'' TRACE ''exec (string[])'' [LStrs (pre @ b # rest)] w)
                   = (w1, Inr outs)"
    and child: "Deno_run rt (piped (js_split CHR '' '' b))
                   (log_call ''exec'' TRACE (''cmd='' @ js_join '','' (js_split CHR '' '' b)) [] w1)
                   = (w2, Inr p)"
    and failed: "exit_code p \<noteq> 0"
  shows "exec rt (ArgList (pre @ b # rest)) w =
           (log_call ''exec'' ERROR ''error while executing''
              [LOpts (erase_opts (normalise (ArgList (pre @ b # rest)))),
               LVal (run_failed (ECmdStr b) p)] w2,
            Threw (ErrorObj ''Error''
              (''Error executing ''
               @ json_opts rt (erase_opts (normalise (ArgList (pre @ b # rest))))
               @ '', error {}'')))"
proof -
  from child failed
  have "u_exec rt (ECmdStr b) None w1 = (w2, Inl (run_failed (ECmdStr b) p))"
    by (simp add: u_exec_def piped_def success_def Let_def)
  from exec_loop_stops_at_failure [OF before this]
  have "exec_body rt (normalise (ArgList (pre @ b # rest))) w
          = (w2, Inl (run_failed (ECmdStr b) p))"
    by (simp add: exec_body_def)
  then show ?thesis
    using here
    by (simp add: exec_def exec_try_def exec_failed_def run_failed_def Let_def)
qed

text \<open>
  Claim C5. The sequence \<^verbatim>\<open>echo a\<close>, \<^verbatim>\<open>ls /nope\<close>, \<^verbatim>\<open>echo c\<close> in the sample process, where
  \<^verbatim>\<open>ls\<close> ends with status 2 and \<^verbatim>\<open>ls: cannot access\<close> on its error output. The error
  \<^verbatim>\<open>_exec\<close> throws for \<^verbatim>\<open>ls /nope\<close> holds both. The two first commands are started and
  the third is not. The error \<^verbatim>\<open>exec\<close> throws to its caller is
  \<^verbatim>\<open>Error executing {"cmd":["echo a","ls /nope","echo c"]}, error {}\<close>: it holds neither
  the status code nor the error output.
\<close>

theorem sequence_failure_hides_code_and_stderr:
  "snd (u_exec demo_platform (ECmdStr ''ls /nope'') None demo_world)
     = Inl (ErrorObj ''Error''
         (''error while running '' @ sq @ ''ls /nope'' @ sq @ '', status code '' @ sq @ ''2'' @ sq
          @ '', error '' @ sq @ ''ls: cannot access'' @ sq)) \<and>
   snd (exec demo_platform (ArgList [''echo a'', ''ls /nope'', ''echo c'']) demo_world)
     = Threw (ErrorObj ''Error''
         (''Error executing {'' @ dq @ ''cmd'' @ dq @ '':['' @ dq @ ''echo a'' @ dq @ '',''
          @ dq @ ''ls /nope'' @ dq @ '','' @ dq @ ''echo c'' @ dq @ '']}, error {}'')) \<and>
   spawned (fst (exec demo_platform (ArgList [''echo a'', ''ls /nope'', ''echo c'']) demo_world))
     = [piped [''echo'', ''a''], piped [''ls'', ''/nope'']]"
  by (simp add: demo_world_def exec_def Deno_cwd_def exec_try_def exec_body_def u_exec_def
        Deno_run_def piped_def demo_platform_def demo_process_def exited_def success_def
        log_call_def console_log_def exec_failed_def run_failed_def erase_opts_def
        demo_json_opts_def demo_quote_def show_int_def show_nat.simps Let_def)

subsection \<open>Echoing the output\<close>

lemma exec_body_string:
  assumes "cmd opts = CmdStr c" and "exec_body rt opts w = (w', Inr out)"
  shows "cwd w' = cwd w \<and>
         console w' = (if silent opts = Some False then console w @ [out] else console w) \<and>
         spawned w' = spawned w @ [piped (js_split CHR '' '' c)] \<and>
         (\<exists>p. run_process rt (piped (js_split CHR '' '' c)) (cwd w) (dirs w) = (dirs w', Inr p)
            \<and> exit_code p = 0 \<and> out = stdout_text p)"
proof -
  let ?w0 = "log_call ''exec'' TRACE ''exec (string)'' [LStr c] w"
  obtain w1 r1 where step: "u_exec rt (ECmdStr c) None ?w0 = (w1, r1)"
    by (cases "u_exec rt (ECmdStr c) None ?w0")
  with assms have r1: "r1 = Inr out"
    and w': "w' = (if silent opts = Some False then console_log out w1 else w1)"
    by (auto simp: exec_body_def split: sum.splits)
  from step r1 have ok: "u_exec rt (ECmdStr c) None ?w0 = (w1, Inr out)" by simp
  from u_exec_string [OF step] u_exec_string_ok [OF ok] w'
  show ?thesis
    by (auto simp: console_log_def log_call_def piped_def)
qed

lemma exec_returned:
  assumes "exec rt (ArgOpts opts) w = (w', Returned out)"
  shows "\<exists>w1 w2. (if str_truthy (dir opts) then Deno_chdir (the (dir opts)) w else Inr w) = Inr w1
           \<and> exec_body rt opts w1 = (w2, Inr out)
           \<and> (if str_truthy (dir opts) then Deno_chdir (cwd w) w2 else Inr w2) = Inr w'"
  using assms
  by (auto simp: exec_def exec_try_def dest: Deno_cwd_Inr split: sum.splits prod.splits if_splits)

lemma exec_echo_opts:
  "exec demo_platform (ArgOpts (echo_opts s)) demo_world =
     (demo_world\<lparr>log_calls := [LogEvent ''exec'' TRACE ''exec (string)'' [LStr ''echo hello''],
                                 LogEvent ''exec'' TRACE ''cmd=echo,hello'' []],
                   console := (if s = Some False then [''hello'' @ nl] else []),
                   spawned := [piped [''echo'', ''hello'']]\<rparr>,
      Returned (''hello'' @ nl))"
  by (simp add: echo_opts_def demo_world_def exec_def Deno_cwd_def
        exec_try_def exec_body_def u_exec_def Deno_run_def piped_def
        demo_platform_def demo_process_def exited_def success_def log_call_def console_log_def
        Let_def)

lemma exec_argv_runs_each_word:
  "exec demo_platform (ArgList [''echo'', ''hello'']) demo_world =
     (demo_world\<lparr>log_calls :=
         [LogEvent ''exec'' TRACE ''exec (string[])'' [LStrs [''echo'', ''hello'']],
          LogEvent ''exec'' TRACE ''cmd=echo'' [],
          LogEvent ''exec'' TRACE ''cmd=hello'' [],
          LogEvent ''exec'' ERROR ''error while executing''
            [LOpts (erase_opts (normalise (ArgList [''echo'', ''hello'']))), LVal NotFound]],
        spawned := [piped [''echo''], piped [''hello'']]\<rparr>,
      Threw (exec_failed demo_platform (normalise (ArgList [''echo'', ''hello''])) NotFound))"
  by (simp add: demo_world_def exec_def Deno_cwd_def
        exec_try_def exec_body_def u_exec_def Deno_run_def piped_def
        demo_platform_def demo_process_def exited_def success_def log_call_def console_log_def
        Let_def)

text \<open>
  Claim C6, as stated, fails. \<^verbatim>\<open>echo hello\<close> with \<^verbatim>\<open>silent\<close> not set returns its output and
  nothing is echoed, although \<^verbatim>\<open>silent\<close> is not explicitly false; the same with
  \<^verbatim>\<open>silent\<close> true; with \<^verbatim>\<open>silent\<close> explicitly false the output is echoed. And an argv
  \<^verbatim>\<open>["echo", "hello"]\<close> is not run as one command: the executor starts \<^verbatim>\<open>echo\<close>, then
  \<^verbatim>\<open>hello\<close>, a program that is not there, and throws.
\<close>

theorem echo_only_when_silent_false:
  "snd (exec demo_platform (ArgOpts (echo_opts None)) demo_world) = Returned (''hello'' @ nl) \<and>
   console (fst (exec demo_platform (ArgOpts (echo_opts None)) demo_world)) = [] \<and>
   console (fst (exec demo_platform (ArgOpts (echo_opts (Some True))) demo_world)) = [] \<and>
   console (fst (exec demo_platform (ArgOpts (echo_opts (Some False))) demo_world)) = [''hello'' @ nl] \<and>
   spawned (fst (exec demo_platform (ArgList [''echo'', ''hello'']) demo_world))
     = [piped [''echo''], piped [''hello'']] \<and>
   snd (exec demo_platform (ArgList [''echo'', ''hello'']) demo_world)
     = Threw (exec_failed demo_platform (normalise (ArgList [''echo'', ''hello''])) NotFound)"
  by (simp add: exec_echo_opts exec_argv_runs_each_word)

text \<open>
  Claim C6, as amended. Whenever the executor, given a single command string \<open>c\<close>, returns
  \<open>out\<close>: one child was started, for \<open>c\<close> split at its spaces, in the directory of the
  call (the override when there is one); it ended with status 0 and \<open>out\<close> is its decoded
  standard output; and \<open>out\<close> was echoed to the console if \<^verbatim>\<open>silent\<close> is explicitly false,
  and not echoed if \<^verbatim>\<open>silent\<close> is unset or true.
\<close>

theorem exec_string_echo:
  assumes str: "cmd opts = CmdStr c" and ret: "exec rt (ArgOpts opts) w = (w', Returned out)"
  shows "console w' = (if silent opts = Some False then console w @ [out] else console w) \<and>
         spawned w' = spawned w @ [piped (js_split CHR '' '' c)] \<and>
         (\<exists>p. run_process rt (piped (js_split CHR '' '' c))
                 (if str_truthy (dir opts) then resolve_path (cwd w) (the (dir opts)) else cwd w)
                 (dirs w) = (dirs w', Inr p)
              \<and> exit_code p = 0 \<and> out = stdout_text p)"
proof -
  from exec_returned [OF ret] obtain w1 w2
    where enter: "(if str_truthy (dir opts) then Deno_chdir (the (dir opts)) w else Inr w) = Inr w1"
      and body: "exec_body rt opts w1 = (w2, Inr out)"
      and leave: "(if str_truthy (dir opts) then Deno_chdir (cwd w) w2 else Inr w2) = Inr w'"
    by blast
  note b = exec_body_string [OF str body]
  show ?thesis
  proof (cases "str_truthy (dir opts)")
    case True
    with enter leave have "w1 = w\<lparr>cwd := resolve_path (cwd w) (the (dir opts))\<rparr>"
      and "w' = w2\<lparr>cwd := resolve_path (cwd w2) (cwd w)\<rparr>"
      by (simp_all add: Deno_chdir_frame)
    with b True show ?thesis by auto
  next
    case False
    with enter leave have "w1 = w" and "w' = w2" by simp_all
    with b False show ?thesis by auto
  qed
qed

text \<open>\<^verbatim>\<open>echo hello\<close> with \<^verbatim>\<open>silent\<close> explicitly false, and with \<^verbatim>\<open>silent\<close> not set.\<close>

theorem exec_string_echo_witness:
  "cmd (echo_opts (Some False)) = CmdStr ''echo hello'' \<and>
   snd (exec demo_platform (ArgOpts (echo_opts (Some False))) demo_world) = Returned (''hello'' @ nl) \<and>
   console (fst (exec demo_platform (ArgOpts (echo_opts (Some False))) demo_world))
     = console demo_world @ [''hello'' @ nl] \<and>
   cmd (echo_opts None) = CmdStr ''echo hello'' \<and>
   snd (exec demo_platform (ArgOpts (echo_opts None)) demo_world) = Returned (''hello'' @ nl) \<and>
   console (fst (exec demo_platform (ArgOpts (echo_opts None)) demo_world)) = console demo_world"
proof -
  have c: "\<And>s. cmd (echo_opts s) = CmdStr ''echo hello''" by (simp add: echo_opts_def)
  have r': "\<And>s. snd (exec demo_platform (ArgOpts (echo_opts s)) demo_world) = Returned (''hello'' @ nl)"
    by (simp add: exec_echo_opts)
  have r: "\<And>s. exec demo_platform (ArgOpts (echo_opts s)) demo_world =
             (fst (exec demo_platform (ArgOpts (echo_opts s)) demo_world), Returned (''hello'' @ nl))"
    using r' by (simp add: prod_eq_iff)
  from exec_string_echo [OF c r, of "Some False"]
  have k1: "console (fst (exec demo_platform (ArgOpts (echo_opts (Some False))) demo_world))
     = console demo_world @ [''hello'' @ nl]"
    by (simp add: echo_opts_def)
  from exec_string_echo [OF c r, of None]
  have k2: "console (fst (exec demo_platform (ArgOpts (echo_opts None)) demo_world))
     = console demo_world"
    by (simp add: echo_opts_def)
  show ?thesis using c r' k1 k2 by simp
qed

subsection \<open>Environment variables\<close>

text \<open>
  \<^verbatim>\<open>exec\<close> calls \<^verbatim>\<open>_exec\<close> with the command alone, so every child it starts for a command
  string or a sequence is started without \<^verbatim>\<open>env\<close>, whatever \<^verbatim>\<open>env\<close> the options hold.
\<close>

lemma exec_spawns_without_env:
  assumes "cmd opts = CmdStr c \<or> cmd opts = CmdList cs"
  shows "\<exists>new. spawned (fst (exec rt (ArgOpts opts) w)) = spawned w @ new
           \<and> list_all (\<lambda>ro. ro_env ro = None) new"
proof -
  have body: "\<exists>new. spawned (fst (exec_body rt opts w1)) = spawned w1 @ new
           \<and> list_all (\<lambda>ro. ro_env ro = None) new" for w1
  proof (cases "cmd opts")
    case (CmdStr c')
    let ?w0 = "log_call ''exec'' TRACE ''exec (string)'' [LStr c'] w1"
    obtain w2 r where step: "u_exec rt (ECmdStr c') None ?w0 = (w2, r)"
      by (cases "u_exec rt (ECmdStr c') None ?w0")
    from u_exec_string [OF step] CmdStr step show ?thesis
      by (cases r) (auto simp: exec_body_def console_log_def log_call_def piped_def)
  next
    case (CmdList cs')
    let ?w0 = "log_call ''exec'' TRACE ''exec (string[])'' [LStrs cs'] w1"
    obtain w2 r where loop: "exec_loop rt cs' [] ?w0 = (w2, r)"
      by (cases "exec_loop rt cs' [] ?w0")
    from exec_loop_frame [OF loop] CmdList loop show ?thesis
      by (cases r) (auto simp: exec_body_def console_log_def log_call_def)
  next
    case (CmdFun src f)
    with assms show ?thesis by simp
  qed
  have caught: "\<exists>new. spawned (fst (exec_try rt opts w1)) = spawned w1 @ new
           \<and> list_all (\<lambda>ro. ro_env ro = None) new" for w1
    using body [of w1]
    by (auto simp: exec_try_def log_call_def split: prod.splits sum.splits)
  show ?thesis
  proof (cases "Deno_cwd w")
    case (Inl e)
    then show ?thesis by (simp add: exec_def)
  next
    case (Inr c0)
    show ?thesis
    proof (cases "str_truthy (dir opts)")
      case False
      with Inr caught [of w] show ?thesis
        by (auto simp: exec_def split: prod.splits)
    next
      case True
      show ?thesis
      proof (cases "Deno_chdir (the (dir opts)) w")
        case (Inl err)
        with Inr True show ?thesis by (simp add: exec_def)
      next
        case entered: (Inr w1)
        then have w1: "spawned w1 = spawned w" by (auto dest: Deno_chdir_frame)
        obtain w2 r where t: "exec_try rt opts w1 = (w2, r)" by (cases "exec_try rt opts w1")
        with caught [of w1] w1 obtain new where new: "spawned w2 = spawned w @ new"
          "list_all (\<lambda>ro. ro_env ro = None) new" by auto
        show ?thesis
        proof (cases "Deno_chdir c0 w2")
          case (Inl e)
          with Inr True entered t new show ?thesis by (auto simp: exec_def)
        next
          case (Inr w3)
          then have "spawned w3 = spawned w2" by (auto dest: Deno_chdir_frame)
          with Inr \<open>Deno_cwd w = Inr c0\<close> True entered t new show ?thesis by (auto simp: exec_def)
        qed
      qed
    qed
  qed
qed

text \<open>
  Claim C7. The options set \<^verbatim>\<open>env\<close> to \<^verbatim>\<open>FOO=bar\<close> for the command \<^verbatim>\<open>printenv FOO\<close>. The
  one child \<^verbatim>\<open>exec\<close> starts has no \<^verbatim>\<open>env\<close> in its run options, so the variable is not
  applied: \<^verbatim>\<open>printenv\<close> ends with status 1 and \<^verbatim>\<open>exec\<close> throws. \<^verbatim>\<open>_exec\<close> called with that
  \<^verbatim>\<open>env\<close> would have passed it on, and the child would have printed \<^verbatim>\<open>bar\<close>.
\<close>

theorem env_not_passed_to_child:
  "env env_opts = Some [(''FOO'', ''bar'')] \<and>
   map ro_env (spawned (fst (exec demo_platform (ArgOpts env_opts) demo_world))) = [None] \<and>
   snd (exec demo_platform (ArgOpts env_opts) demo_world)
     = Threw (exec_failed demo_platform env_opts
         (run_failed (ECmdStr ''printenv FOO'') \<lparr>stdout_text = [], exit_code = 1, stderr_text = []\<rparr>)) \<and>
   snd (u_exec demo_platform (ECmdStr ''printenv FOO'') (Some [(''FOO'', ''bar'')]) demo_world)
     = Inr (''bar'' @ nl)"
  by (simp add: env_opts_def demo_world_def exec_def Deno_cwd_def
        exec_try_def exec_body_def u_exec_def Deno_run_def
        demo_platform_def demo_process_def exited_def success_def log_call_def console_log_def
        Let_def)

subsection \<open>The directory override\<close>

text \<open>
  The \<^verbatim>\<open>try\<close> of \<^verbatim>\<open>exec\<close> returns, or throws the error its \<^verbatim>\<open>catch\<close> clause builds; it
  never ends with Deno's \<^verbatim>\<open>NotFound\<close>. So \<^verbatim>\<open>exec\<close> ends with \<^verbatim>\<open>NotFound\<close> only when
  \<^verbatim>\<open>Deno.cwd()\<close> or the change back in \<^verbatim>\<open>finally\<close> threw it.
\<close>

lemma exec_try_not_NotFound:
  "exec_try rt opts w = (w', r) \<Longrightarrow> r \<noteq> Threw NotFound"
  by (auto simp: exec_try_def exec_failed_def NotFound_def split: prod.splits sum.splits)

text \<open>
  Claim C9, as stated, fails. The sample options run a function in \<^verbatim>\<open>/tmp/work\<close> that
  removes the directory the process was in. The \<^verbatim>\<open>finally\<close> clause then cannot change
  back: \<^verbatim>\<open>Deno.chdir\<close> throws \<^verbatim>\<open>NotFound\<close>, which is what the call ends with, and the
  process stays in \<^verbatim>\<open>/tmp/work\<close>.
\<close>

theorem exec_dir_restore_can_fail:
  "str_truthy (dir removing_opts) \<and>
   cwd demo_world = ''/home/u/proj'' \<and>
   cwd (fst (exec demo_platform (ArgOpts removing_opts) demo_world)) = ''/tmp/work'' \<and>
   snd (exec demo_platform (ArgOpts removing_opts) demo_world) = Threw NotFound"
  by (simp add: removing_opts_def demo_world_def exec_def Deno_cwd_def Deno_chdir_def
      resolve_path_def is_absolute_def exec_try_def exec_body_def log_call_def Deno_remove_def
      strip_slash_def Let_def)

text \<open>
  Claim C9, as amended. For a call of the executor with a directory override, from a
  process whose working directory is an absolute path: unless the call ends with Deno's
  \<^verbatim>\<open>NotFound\<close> (the directory to go back to is gone), the working directory after the
  call, returned or thrown, is the one before it. And when changing to the override
  directory fails with \<open>err\<close>, the call throws an error whose message holds the target
  directory, the command and \<open>err\<close>, and the state of the process is the one before the
  call: no command ran.
\<close>

theorem exec_dir_override:
  assumes abs: "is_absolute (cwd w)" and set: "str_truthy (dir opts)"
  shows "(snd (exec rt (ArgOpts opts) w) \<noteq> Threw NotFound
            \<longrightarrow> cwd (fst (exec rt (ArgOpts opts) w)) = cwd w) \<and>
         (\<forall>err. Deno_cwd w = Inr (cwd w) \<and> Deno_chdir (the (dir opts)) w = Inl err
            \<longrightarrow> exec rt (ArgOpts opts) w =
                 (w, Threw (ErrorObj ''Error''
                       (''Error changing working dir. Dir='' @ sq @ the (dir opts) @ sq
                        @ '', cmd='' @ sq @ cmd_text (cmd opts) @ sq
                        @ '', err='' @ js_String err))))"
proof (intro conjI allI impI)
  assume ok: "snd (exec rt (ArgOpts opts) w) \<noteq> Threw NotFound"
  show "cwd (fst (exec rt (ArgOpts opts) w)) = cwd w"
  proof (cases "Deno_cwd w")
    case (Inl e)
    then show ?thesis by (simp add: exec_def)
  next
    case (Inr c)
    then have c: "c = cwd w" by (rule Deno_cwd_Inr)
    show ?thesis
    proof (cases "Deno_chdir (the (dir opts)) w")
      case (Inl err)
      with Inr set show ?thesis by (simp add: exec_def)
    next
      case in_dir: (Inr w1)
      obtain w2 r where body: "exec_try rt opts w1 = (w2, r)" by (cases "exec_try rt opts w1")
      show ?thesis
      proof (cases "Deno_chdir c w2")
        case (Inl e)
        then have "e = NotFound" by (rule Deno_chdir_cases)
        with Inl Inr in_dir body set have "snd (exec rt (ArgOpts opts) w) = Threw NotFound"
          by (simp add: exec_def)
        with ok show ?thesis by simp
      next
        case restored: (Inr w3)
        with abs c have "cwd w3 = cwd w" by (simp add: Deno_chdir_absolute)
        with restored Inr in_dir body set show ?thesis by (simp add: exec_def)
      qed
    qed
  qed
next
  fix err
  assume "Deno_cwd w = Inr (cwd w) \<and> Deno_chdir (the (dir opts)) w = Inl err"
  with set show "exec rt (ArgOpts opts) w =
                 (w, Threw (ErrorObj ''Error''
                       (''Error changing working dir. Dir='' @ sq @ the (dir opts) @ sq
                        @ '', cmd='' @ sq @ cmd_text (cmd opts) @ sq
                        @ '', err='' @ js_String err)))"
    by (simp add: exec_def chdir_failed_def)
qed

text \<open>
  \<^verbatim>\<open>echo hello\<close> run in the build directory leaves the process where it was; a sequence to
  be run in a directory that is not there throws, and nothing has changed.
\<close>

theorem exec_dir_override_witness:
  "is_absolute (cwd demo_world) \<and> str_truthy (dir build_opts) \<and>
   snd (exec demo_platform (ArgOpts build_opts) demo_world) = Returned (''hello'' @ nl) \<and>
   cwd (fst (exec demo_platform (ArgOpts build_opts) demo_world)) = cwd demo_world \<and>
   str_truthy (dir nowhere_opts) \<and>
   Deno_cwd demo_world = Inr (cwd demo_world) \<and>
   Deno_chdir (the (dir nowhere_opts)) demo_world = Inl NotFound \<and>
   exec demo_platform (ArgOpts nowhere_opts) demo_world =
     (demo_world,
      Threw (ErrorObj ''Error''
        (''Error changing working dir. Dir='' @ sq @ ''nowhere'' @ sq
         @ '', cmd='' @ sq @ ''echo a,echo b'' @ sq
         @ '', err=NotFound: No such file or directory (os error 2)'')))"
proof -
  have abs: "is_absolute (cwd demo_world)"
    by (simp add: is_absolute_def demo_world_def)
  have s1: "str_truthy (dir build_opts)" by (simp add: build_opts_def)
  have s2: "str_truthy (dir nowhere_opts)" by (simp add: nowhere_opts_def)
  have r1: "snd (exec demo_platform (ArgOpts build_opts) demo_world) = Returned (''hello'' @ nl)"
    by (simp add: build_opts_def demo_world_def exec_def Deno_cwd_def Deno_chdir_def
        resolve_path_def is_absolute_def exec_try_def exec_body_def u_exec_def Deno_run_def
        demo_platform_def demo_process_def exited_def success_def log_call_def console_log_def
        Let_def)
  have c: "Deno_cwd demo_world = Inr (cwd demo_world)"
    by (simp add: Deno_cwd_def demo_world_def)
  have d: "Deno_chdir (the (dir nowhere_opts)) demo_world = Inl NotFound"
    by (simp add: Deno_chdir_def nowhere_opts_def demo_world_def resolve_path_def is_absolute_def)
  have n: "Returned (''hello'' @ nl) \<noteq> Threw NotFound" by simp
  show ?thesis
    using abs s1 s2 r1 c d n
      exec_dir_override [OF abs s1, of demo_platform]
      exec_dir_override [OF abs s2, of demo_platform]
    by (simp add: nowhere_opts_def NotFound_def)
qed

section \<open>Synchronous tasks and functions\<close>

text \<open>
  Without a directory override \<^verbatim>\<open>exec\<close> is its \<^verbatim>\<open>try\<close> with the \<^verbatim>\<open>catch\<close> clause; with
  one, the process enters the directory, runs the \<^verbatim>\<open>try\<close> there, and the \<^verbatim>\<open>finally\<close>
  clause changes back.
\<close>

lemma exec_without_dir:
  "Deno_cwd w = Inr c \<Longrightarrow> \<not> str_truthy (dir opts) \<Longrightarrow>
   exec rt (ArgOpts opts) w = exec_try rt opts w"
  by (simp add: exec_def split: prod.split)

lemma exec_with_dir:
  "Deno_cwd w = Inr c \<Longrightarrow> str_truthy (dir opts) \<Longrightarrow> Deno_chdir (the (dir opts)) w = Inr wa \<Longrightarrow>
   exec rt (ArgOpts opts) w =
     (case exec_try rt opts wa of
        (wb, r) \<Rightarrow> (case Deno_chdir c wb of Inl e \<Rightarrow> (wb, Threw e) | Inr wc \<Rightarrow> (wc, r)))"
  by (simp add: exec_def split: prod.split)

lemma await_catch_no_promise:
  "v = Undefined \<or> v = Null \<or> v = NonPromise \<Longrightarrow>
   \<exists>m. await_catch callee (Returns v) = Some (ErrorObj ''TypeError'' m)"
  by auto

lemma exec_try_sync_function:
  assumes m: "await_catch ''cmd'' (Returns v) = Some (ErrorObj ''TypeError'' m)"
    and c: "cmd opts = CmdFun src f"
    and f: "f (log_call ''exec'' TRACE ''exec (function)'' [LFun src] x) = (xb, Returns v)"
  shows "exec_try rt opts x =
           (if logError opts \<noteq> Some False
            then log_call ''exec'' ERROR ''error while executing''
                   [LOpts (erase_opts opts), LVal (ErrorObj ''TypeError'' m)] xb
            else xb,
            Threw (ErrorObj ''Error''
              (''Error executing '' @ json_opts rt (erase_opts opts) @ '', error {}'')))"
proof -
  from m c f have "exec_body rt opts x = (xb, Inl (ErrorObj ''TypeError'' m))"
    by (simp add: exec_body_def)
  then show ?thesis
    by (simp add: exec_try_def exec_failed_def)
qed

text \<open>
  Claim C10. Let \<open>v\<close> be a returned value without a \<^verbatim>\<open>catch\<close> method: \<^verbatim>\<open>undefined\<close>,
  \<^verbatim>\<open>null\<close> or another value that is no promise.
  \<^item> Dispatcher: when the names before \<open>n\<close> ran to their end and the task of \<open>n\<close>, called,
    returns \<open>v\<close> (its body ran without throwing, leaving \<open>wb\<close>), the dispatcher logs that
    the task threw, with a \<^verbatim>\<open>TypeError\<close> as the error, and throws the string naming the
    task; the names in \<open>rest\<close> are not run.
  \<^item> Executor, no directory override: when \<^verbatim>\<open>cmd\<close> is a function that, called, returns
    \<open>v\<close> and leaves \<open>xb\<close>, \<^verbatim>\<open>exec\<close> ends in \<open>xb\<close>, with the \<^verbatim>\<open>TypeError\<close> logged unless
    \<^verbatim>\<open>logError\<close> is explicitly false, and throws its error for a failed command.
  \<^item> Executor, with a directory override that is entered: the same, followed by the
    change back to the directory of the call; when that change fails its error is what
    the call throws.
\<close>

theorem nonpromise_is_reported_as_failure:
  fixes opts :: "fn exec_opts"
  defines "logged \<equiv> \<lambda>m xb.
     (if logError opts \<noteq> Some False
      then log_call ''exec'' ERROR ''error while executing''
             [LOpts (erase_opts opts), LVal (ErrorObj ''TypeError'' m)] xb
      else xb)"
  assumes v: "v = Undefined \<or> v = Null \<or> v = NonPromise"
  shows "(runTasks userTasks builtinsTasks pre taskArgs w = (wa, Completed) \<and>
          lookup_task userTasks builtinsTasks (js_replace CHR ''-'' CHR ''_'' n) = Some task \<and>
          task \<lparr>args = taskArgs, log = ''task.'' @ js_replace CHR ''-'' CHR ''_'' n\<rparr>
            (log_call ''run'' DEBUG (running_msg (js_replace CHR ''-'' CHR ''_'' n)) [] wa)
            = (wb, Returns v)
          \<longrightarrow> (\<exists>m. runTasks userTasks builtinsTasks (pre @ n # rest) taskArgs w =
                (log_call ''run'' ERROR
                   (''Task '' @ sq @ js_replace CHR ''-'' CHR ''_'' n @ sq @ '' threw an error'')
                   [LVal (ErrorObj ''TypeError'' m)] wb,
                 Failed (StrVal (''Task '' @ sq @ js_replace CHR ''-'' CHR ''_'' n
                                 @ '' threw an error''))))) \<and>
         (Deno_cwd x = Inr c \<and> \<not> str_truthy (dir opts) \<and> cmd opts = CmdFun src f \<and>
          f (log_call ''exec'' TRACE ''exec (function)'' [LFun src] x) = (xb, Returns v)
          \<longrightarrow> (\<exists>m. exec rt (ArgOpts opts) x =
                (logged m xb,
                 Threw (ErrorObj ''Error''
                   (''Error executing '' @ json_opts rt (erase_opts opts) @ '', error {}''))))) \<and>
         (Deno_cwd x = Inr c \<and> str_truthy (dir opts) \<and>
          Deno_chdir (the (dir opts)) x = Inr xa \<and> cmd opts = CmdFun src f \<and>
          f (log_call ''exec'' TRACE ''exec (function)'' [LFun src] xa) = (xb, Returns v)
          \<longrightarrow> (\<exists>m. exec rt (ArgOpts opts) x =
                (case Deno_chdir c (logged m xb) of
                   Inl e \<Rightarrow> (logged m xb, Threw e)
                 | Inr xc \<Rightarrow>
                     (xc, Threw (ErrorObj ''Error''
                            (''Error executing '' @ json_opts rt (erase_opts opts)
                             @ '', error {}''))))))"
proof (intro conjI impI)
  assume h: "runTasks userTasks builtinsTasks pre taskArgs w = (wa, Completed) \<and>
          lookup_task userTasks builtinsTasks (js_replace CHR ''-'' CHR ''_'' n) = Some task \<and>
          task \<lparr>args = taskArgs, log = ''task.'' @ js_replace CHR ''-'' CHR ''_'' n\<rparr>
            (log_call ''run'' DEBUG (running_msg (js_replace CHR ''-'' CHR ''_'' n)) [] wa)
            = (wb, Returns v)"
  from await_catch_no_promise [OF v]
  obtain m where m: "await_catch ''task'' (Returns v) = Some (ErrorObj ''TypeError'' m)"
    by blast
  with h have "runTasks userTasks builtinsTasks (n # rest) taskArgs wa =
          (log_call ''run'' ERROR (threw_msg (js_replace CHR ''-'' CHR ''_'' n))
             [LVal (ErrorObj ''TypeError'' m)] wb,
           Failed (task_failure (js_replace CHR ''-'' CHR ''_'' n)))"
    by (simp add: Let_def)
  with h show "\<exists>m. runTasks userTasks builtinsTasks (pre @ n # rest) taskArgs w =
                (log_call ''run'' ERROR
                   (''Task '' @ sq @ js_replace CHR ''-'' CHR ''_'' n @ sq @ '' threw an error'')
                   [LVal (ErrorObj ''TypeError'' m)] wb,
                 Failed (StrVal (''Task '' @ sq @ js_replace CHR ''-'' CHR ''_'' n
                                 @ '' threw an error'')))"
    by (auto simp: runTasks_after_completed threw_msg_def task_failure_def)
next
  assume h: "Deno_cwd x = Inr c \<and> \<not> str_truthy (dir opts) \<and> cmd opts = CmdFun src f \<and>
          f (log_call ''exec'' TRACE ''exec (function)'' [LFun src] x) = (xb, Returns v)"
  from await_catch_no_promise [OF v]
  obtain m where m: "await_catch ''cmd'' (Returns v) = Some (ErrorObj ''TypeError'' m)"
    by blast
  from h have "exec rt (ArgOpts opts) x = exec_try rt opts x"
    by (simp add: exec_without_dir)
  also from h have "\<dots> = (logged m xb,
                 Threw (ErrorObj ''Error''
                   (''Error executing '' @ json_opts rt (erase_opts opts) @ '', error {}'')))"
    unfolding logged_def
    using exec_try_sync_function [OF m, of opts src f x xb rt] by simp
  finally show "\<exists>m. exec rt (ArgOpts opts) x =
                (logged m xb,
                 Threw (ErrorObj ''Error''
                   (''Error executing '' @ json_opts rt (erase_opts opts) @ '', error {}'')))"
    by blast
next
  assume h: "Deno_cwd x = Inr c \<and> str_truthy (dir opts) \<and>
          Deno_chdir (the (dir opts)) x = Inr xa \<and> cmd opts = CmdFun src f \<and>
          f (log_call ''exec'' TRACE ''exec (function)'' [LFun src] xa) = (xb, Returns v)"
  from await_catch_no_promise [OF v]
  obtain m where m: "await_catch ''cmd'' (Returns v) = Some (ErrorObj ''TypeError'' m)"
    by blast
  from h have t: "exec_try rt opts xa = (logged m xb,
                 Threw (ErrorObj ''Error''
                   (''Error executing '' @ json_opts rt (erase_opts opts) @ '', error {}'')))"
    unfolding logged_def
    using exec_try_sync_function [OF m, of opts src f xa xb rt] by simp
  from h have "exec rt (ArgOpts opts) x =
     (case exec_try rt opts xa of
        (wb, r) \<Rightarrow> (case Deno_chdir c wb of Inl e \<Rightarrow> (wb, Threw e) | Inr wc \<Rightarrow> (wc, r)))"
    by (simp add: exec_with_dir)
  then have "exec rt (ArgOpts opts) x =
                (case Deno_chdir c (logged m xb) of
                   Inl e \<Rightarrow> (logged m xb, Threw e)
                 | Inr xc \<Rightarrow>
                     (xc, Threw (ErrorObj ''Error''
                            (''Error executing '' @ json_opts rt (erase_opts opts)
                             @ '', error {}''))))"
    by (simp only: t prod.case)
  then show "\<exists>m. exec rt (ArgOpts opts) x =
                (case Deno_chdir c (logged m xb) of
                   Inl e \<Rightarrow> (logged m xb, Threw e)
                 | Inr xc \<Rightarrow>
                     (xc, Threw (ErrorObj ''Error''
                            (''Error executing '' @ json_opts rt (erase_opts opts)
                             @ '', error {}''))))"
    by (rule exI)
qed

text \<open>
  The sample task \<^verbatim>\<open>lint\<close> prints and returns nothing: the batch \<^verbatim>\<open>build lint build\<close>
  fails at \<^verbatim>\<open>lint\<close>. The sample function given to the executor prints and returns
  nothing: the executor throws, with and without a directory override, and the function
  has printed.
\<close>

theorem nonpromise_is_reported_as_failure_witness:
  "lookup_task demo_tasks (newBuiltinsTasks demo_platform demo_opts)
     (js_replace CHR ''-'' CHR ''_'' ''lint'') = Some task_sync \<and>
   snd (runTasks demo_tasks (newBuiltinsTasks demo_platform demo_opts)
          ([''build''] @ ''lint'' # [''build'']) no_flags demo_world)
     = Failed (StrVal (''Task '' @ sq @ ''lint'' @ '' threw an error'')) \<and>
   console (fst (runTasks demo_tasks (newBuiltinsTasks demo_platform demo_opts)
          ([''build''] @ ''lint'' # [''build'']) no_flags demo_world))
     = [''ran task.build'', ''ran task.lint''] \<and>
   Deno_cwd demo_world = Inr ''/home/u/proj'' \<and> \<not> str_truthy (dir sync_opts) \<and>
   snd (exec demo_platform (ArgOpts sync_opts) demo_world)
     = Threw (ErrorObj ''Error'' ''Error executing {}, error {}'') \<and>
   console (fst (exec demo_platform (ArgOpts sync_opts) demo_world)) = [''1''] \<and>
   str_truthy (dir sync_dir_opts) \<and>
   snd (exec demo_platform (ArgOpts sync_dir_opts) demo_world)
     = Threw (ErrorObj ''Error''
         (''Error executing {'' @ dq @ ''dir'' @ dq @ '':'' @ dq @ ''build'' @ dq @ ''}, error {}'')) \<and>
   console (fst (exec demo_platform (ArgOpts sync_dir_opts) demo_world)) = [''1''] \<and>
   cwd (fst (exec demo_platform (ArgOpts sync_dir_opts) demo_world)) = ''/home/u/proj''"
proof -
  let ?b = "newBuiltinsTasks demo_platform demo_opts"
  let ?w1 = "demo_world\<lparr>log_calls := [LogEvent ''run'' DEBUG (running_msg ''build'') []],
                console := [''ran task.build'']\<rparr>"
  let ?w2 = "console_log ''ran task.lint'' (log_call ''run'' DEBUG (running_msg ''lint'') [] ?w1)"
  let ?src = "''() => { console.log(1) }''"
  let ?f = "\<lambda>w. (console_log ''1'' w, Returns Undefined)"
  let ?x2 = "console_log ''1'' (log_call ''exec'' TRACE ''exec (function)'' [LFun ?src] demo_world)"
  let ?xa = "demo_world\<lparr>cwd := ''/home/u/proj/build''\<rparr>"
  let ?xb = "console_log ''1'' (log_call ''exec'' TRACE ''exec (function)'' [LFun ?src] ?xa)"
  have v: "Undefined = Undefined \<or> Undefined = Null \<or> Undefined = NonPromise" by simp
  have reached: "runTasks demo_tasks ?b [''build''] no_flags demo_world = (?w1, Completed)"
    by (simp add: demo_tasks_def object_prototype_def lookup_task_def task_ok_def log_call_def
        console_log_def demo_world_def Let_def)
  have found: "lookup_task demo_tasks ?b (js_replace CHR ''-'' CHR ''_'' ''lint'') = Some task_sync"
    by (simp add: demo_tasks_def object_prototype_def lookup_task_def)
  have called: "task_sync \<lparr>args = no_flags, log = ''task.'' @ js_replace CHR ''-'' CHR ''_'' ''lint''\<rparr>
       (log_call ''run'' DEBUG (running_msg (js_replace CHR ''-'' CHR ''_'' ''lint'')) [] ?w1)
      = (?w2, Returns Undefined)"
    by (simp add: task_sync_def)
  have here: "Deno_cwd demo_world = Inr ''/home/u/proj''"
    by (simp add: Deno_cwd_def demo_world_def)
  have nodir: "\<not> str_truthy (dir sync_opts)" by (simp add: sync_opts_def)
  have withdir: "str_truthy (dir sync_dir_opts)" by (simp add: sync_dir_opts_def)
  have c: "cmd sync_opts = CmdFun ?src ?f" by (simp add: sync_opts_def)
  have cd: "cmd sync_dir_opts = CmdFun ?src ?f" by (simp add: sync_dir_opts_def sync_opts_def)
  have fn: "?f (log_call ''exec'' TRACE ''exec (function)'' [LFun ?src] demo_world)
      = (?x2, Returns Undefined)"
    by simp
  have fd: "?f (log_call ''exec'' TRACE ''exec (function)'' [LFun ?src] ?xa)
      = (?xb, Returns Undefined)"
    by simp
  have entered: "Deno_chdir (the (dir sync_dir_opts)) demo_world = Inr ?xa"
    by (simp add: sync_dir_opts_def Deno_chdir_def resolve_path_def is_absolute_def demo_world_def)
  have j: "json_opts demo_platform (erase_opts sync_opts) = ''{}''"
    by (simp add: demo_platform_def demo_json_opts_def erase_opts_def sync_opts_def)
  have jd: "json_opts demo_platform (erase_opts sync_dir_opts)
              = ''{'' @ dq @ ''dir'' @ dq @ '':'' @ dq @ ''build'' @ dq @ ''}''"
    by (simp add: demo_platform_def demo_json_opts_def demo_quote_def erase_opts_def
        sync_dir_opts_def sync_opts_def)
  note T = nonpromise_is_reported_as_failure [OF v, where userTasks = demo_tasks
      and builtinsTasks = ?b and pre = "[''build'']" and taskArgs = no_flags and w = demo_world
      and wa = ?w1 and n = "''lint''" and task = task_sync and wb = ?w2 and rest = "[''build'']"
      and src = ?src and f = ?f and x = demo_world and c = "''/home/u/proj''"
      and rt = demo_platform]
  from T [where opts = sync_opts, THEN conjunct1, THEN mp, OF conjI [OF reached conjI [OF found called]]]
  obtain m where "runTasks demo_tasks ?b ([''build''] @ ''lint'' # [''build'']) no_flags demo_world =
        (log_call ''run'' ERROR
           (''Task '' @ sq @ js_replace CHR ''-'' CHR ''_'' ''lint'' @ sq @ '' threw an error'')
           [LVal (ErrorObj ''TypeError'' m)] ?w2,
         Failed (StrVal (''Task '' @ sq @ js_replace CHR ''-'' CHR ''_'' ''lint''
                         @ '' threw an error'')))"
    by blast
  then have d: "snd (runTasks demo_tasks ?b ([''build''] @ ''lint'' # [''build'']) no_flags demo_world)
       = Failed (StrVal (''Task '' @ sq @ ''lint'' @ '' threw an error'')) \<and>
     console (fst (runTasks demo_tasks ?b ([''build''] @ ''lint'' # [''build'']) no_flags demo_world))
       = [''ran task.build'', ''ran task.lint'']"
    by (simp only: snd_conv fst_conv js_replace.simps char.inject)
       (simp add: log_call_def console_log_def demo_world_def)
  from T [where opts = sync_opts and xb = ?x2, THEN conjunct2, THEN conjunct1, THEN mp,
      OF conjI [OF here conjI [OF nodir conjI [OF c fn]]]]
  obtain m' where "exec demo_platform (ArgOpts sync_opts) demo_world =
        (if logError sync_opts \<noteq> Some False
         then log_call ''exec'' ERROR ''error while executing''
                [LOpts (erase_opts sync_opts), LVal (ErrorObj ''TypeError'' m')] ?x2
         else ?x2,
         Threw (ErrorObj ''Error''
           (''Error executing '' @ json_opts demo_platform (erase_opts sync_opts) @ '', error {}'')))"
    by blast
  then have e: "snd (exec demo_platform (ArgOpts sync_opts) demo_world)
       = Threw (ErrorObj ''Error'' ''Error executing {}, error {}'') \<and>
     console (fst (exec demo_platform (ArgOpts sync_opts) demo_world)) = [''1'']"
    by (simp only: snd_conv fst_conv j)
       (simp add: log_call_def console_log_def demo_world_def)
  from T [where opts = sync_dir_opts and xa = ?xa and xb = ?xb, THEN conjunct2, THEN conjunct2,
      THEN mp, OF conjI [OF here conjI [OF withdir conjI [OF entered conjI [OF cd fd]]]]]
  obtain m'' where "exec demo_platform (ArgOpts sync_dir_opts) demo_world =
        (case Deno_chdir ''/home/u/proj''
               (if logError sync_dir_opts \<noteq> Some False
                then log_call ''exec'' ERROR ''error while executing''
                       [LOpts (erase_opts sync_dir_opts), LVal (ErrorObj ''TypeError'' m'')] ?xb
                else ?xb) of
           Inl e \<Rightarrow>
             (if logError sync_dir_opts \<noteq> Some False
              then log_call ''exec'' ERROR ''error while executing''
                     [LOpts (erase_opts sync_dir_opts), LVal (ErrorObj ''TypeError'' m'')] ?xb
              else ?xb, Threw e)
         | Inr xc \<Rightarrow>
             (xc, Threw (ErrorObj ''Error''
                    (''Error executing '' @ json_opts demo_platform (erase_opts sync_dir_opts)
                     @ '', error {}''))))"
    by blast
  then have g: "snd (exec demo_platform (ArgOpts sync_dir_opts) demo_world)
       = Threw (ErrorObj ''Error''
         (''Error executing {'' @ dq @ ''dir'' @ dq @ '':'' @ dq @ ''build'' @ dq @ ''}, error {}'')) \<and>
     console (fst (exec demo_platform (ArgOpts sync_dir_opts) demo_world)) = [''1''] \<and>
     cwd (fst (exec demo_platform (ArgOpts sync_dir_opts) demo_world)) = ''/home/u/proj''"
    by (simp only: jd)
       (simp add: log_call_def console_log_def demo_world_def Deno_chdir_def resolve_path_def
          is_absolute_def sync_dir_opts_def sync_opts_def)
  show ?thesis
    by (intro conjI) (use found d here nodir e withdir g in \<open>simp_all only: simp_thms\<close>)
qed

section \<open>The runner: the working directory after a run\<close>





text \<open>
  A positional argument that reads as a number ends the run with a \<^verbatim>\<open>TypeError\<close>, after
  the tasks named before it; the \<^verbatim>\<open>finally\<close> clause has changed back.
\<close>

lemma demo_run_number:
  "run demo_platform demo_opts
     \<lparr>positional = [PStr ''build'', PNum ''123'', PStr ''build''], flags = no_flags\<rparr> demo_world =
     (demo_world\<lparr>log_calls :=
        [LogEvent ''run'' TRACE ''entryScript'' [LStr ''/home/u/proj/run.ts''],
         LogEvent ''run'' TRACE ''entryScriptDir'' [LStr ''/home/u/proj''],
         LogEvent ''run'' TRACE ''baseDir'' [LStr ''/home/u/proj/build''],
         LogEvent ''run'' DEBUG (running_msg ''build'') []],
        console := [''ran task.build'']\<rparr>,
      Threw not_a_string)"
  by (simp add: run_def runTasks_untyped_def no_flags_def demo_opts_def demo_platform_def
      demo_world_def Deno_cwd_def setWorkingDir_def Deno_chdir_def resolve_path_def
      is_absolute_def log_call_def console_log_def demo_tasks_def object_prototype_def
      lookup_task_def task_ok_def Let_def)







end
